theory Spec2Isabelle
  imports Complex_Main
begin

section \<open>Python values, errors and results\<close>

text \<open>
  The values that travel through the drawing API.  Numbers are Python ints or floats; a
  float is carried as the real number it denotes, since no arithmetic is done on it here.
  \<open>PHandle\<close> is a foreign object known only by identity (an \<open>NSColor\<close> handed in by a
  script, for instance).
\<close>

datatype pyval =
    PNone
  | PBool bool
  | PInt int
  | PFloat real
  | PStr string
  | PTuple "pyval list"
  | PList "pyval list"
  | PHandle nat

text \<open>Python truth value of an object, as used by \<open>if x:\<close>.\<close>

fun truthy :: "pyval \<Rightarrow> bool" where
  "truthy PNone = False"
| "truthy (PBool b) = b"
| "truthy (PInt i) = (i \<noteq> 0)"
| "truthy (PFloat r) = (r \<noteq> 0)"
| "truthy (PStr s) = (s \<noteq> [])"
| "truthy (PTuple xs) = (xs \<noteq> [])"
| "truthy (PList xs) = (xs \<noteq> [])"
| "truthy (PHandle h) = True"

text \<open>Whether a value can be a dictionary key: a list cannot, nor a tuple that holds one.\<close>

fun hashable :: "pyval \<Rightarrow> bool" where
  "hashable (PList xs) = False"
| "hashable (PTuple xs) = list_all hashable xs"
| "hashable v = True"

datatype error =
    DrawBotError string
  | TypeError string
  | AttributeError string
  | IndexError string
  | NotModelled string

text \<open>
  A call either returns the new state, or raises and leaves behind the state as far as it
  had been mutated when the exception left the function: \<open>Inl (e, s')\<close>.
\<close>

type_synonym 's result = "(error \<times> 's) + 's"

definition after :: "'s result \<Rightarrow> 's" where
  "after r = (case r of Inl (e, s) \<Rightarrow> s | Inr s \<Rightarrow> s)"

definition raised :: "'s result \<Rightarrow> error option" where
  "raised r = (case r of Inl (e, s) \<Rightarrow> Some e | Inr s \<Rightarrow> None)"

section \<open>Colours, shadows, gradients\<close>

datatype colorSpace =
    GenericRGB | AdobeRGB1998 | SRGB | GenericGray | GenericGamma22Gray | DisplayP3
  | GenericCMYK

text \<open>
  An \<open>NSColor\<close> as the constructors of \<open>Color\<close> and \<open>CMYKColor\<close> build it:
  a calibrated RGBA or device CMYKA colour, or a foreign colour object, converted to a
  colour space.
\<close>

datatype nscolor =
    CalibratedRGBA pyval pyval pyval pyval
  | DeviceCMYKA pyval pyval pyval pyval pyval
  | ForeignColor nat
  | UsingColorSpace nscolor colorSpace

text \<open>
  \<open>Color\<close>: the attribute \<open>_color\<close>, which is \<open>None\<close> when the constructor was
  called without a first argument.
\<close>

record color =
  color_ns :: "nscolor option"

text \<open>
  \<open>CMYKColor\<close>: its constructor does not call the one of \<open>Color\<close>; without a first
  argument it returns before any attribute is set, so each attribute may be absent.
\<close>

record cmykColor =
  cmyk_ns :: "nscolor option"
  cmyka :: "(pyval \<times> pyval \<times> pyval \<times> pyval \<times> pyval) option"

text \<open>\<open>Color.__init__(r, g, b, a)\<close> with the class attribute \<open>Color.colorSpace\<close>.\<close>

definition Color_init :: "colorSpace \<Rightarrow> pyval \<Rightarrow> pyval \<Rightarrow> pyval \<Rightarrow> pyval \<Rightarrow> color" where
  "Color_init cs r g b a =
     (if r = PNone then \<lparr>color_ns = None\<rparr>
      else \<lparr>color_ns = Some (UsingColorSpace
              (case r of
                 PHandle h \<Rightarrow> ForeignColor h
               | _ \<Rightarrow> (if g = PNone \<and> b = PNone then CalibratedRGBA r r r a
                       else if b = PNone then CalibratedRGBA r r r g
                       else CalibratedRGBA r g b a)) cs)\<rparr>)"

text \<open>
  \<open>Color.copy\<close>: a fresh \<open>Color()\<close> whose \<open>_color\<close> is the copy of this one's.
  Copying the \<open>_color\<close> of an empty colour is a call on \<open>None\<close>.
\<close>

definition Color_copy :: "color \<Rightarrow> error + color" where
  "Color_copy c =
     (case color_ns c of
        None \<Rightarrow> Inl (AttributeError ''copy'')
      | Some n \<Rightarrow> Inr \<lparr>color_ns = Some n\<rparr>)"

text \<open>\<open>CMYKColor.__init__(c, m, y, k, a)\<close>; the colour space is the class's generic CMYK.\<close>

definition CMYKColor_init :: "pyval \<Rightarrow> pyval \<Rightarrow> pyval \<Rightarrow> pyval \<Rightarrow> pyval \<Rightarrow> cmykColor" where
  "CMYKColor_init c m y k a =
     (if c = PNone then \<lparr>cmyk_ns = None, cmyka = None\<rparr>
      else \<lparr>cmyk_ns = Some (UsingColorSpace
              (case c of PHandle h \<Rightarrow> ForeignColor h | _ \<Rightarrow> DeviceCMYKA c m y k a) GenericCMYK),
            cmyka = Some (c, m, y, k, a)\<rparr>)"

text \<open>
  \<open>CMYKColor\<close> inherits \<open>copy\<close> from \<open>Color\<close>: the fresh object is \<open>CMYKColor()\<close>,
  which has no attribute yet, and only \<open>_color\<close> is assigned.
\<close>

definition CMYKColor_copy :: "cmykColor \<Rightarrow> error + cmykColor" where
  "CMYKColor_copy c =
     (case cmyk_ns c of
        None \<Rightarrow> Inl (AttributeError ''copy'')
      | Some n \<Rightarrow> Inr \<lparr>cmyk_ns = Some n, cmyka = None\<rparr>)"

text \<open>Sequencing of calls: the first exception ends the sequence.\<close>

definition bindR :: "'s result \<Rightarrow> ('s \<Rightarrow> 's result) \<Rightarrow> 's result" where
  "bindR r f = (case r of Inl x \<Rightarrow> Inl x | Inr s \<Rightarrow> f s)"

definition bindE :: "error + 'a \<Rightarrow> ('a \<Rightarrow> error + 'b) \<Rightarrow> error + 'b" where
  "bindE r f = (case r of Inl e \<Rightarrow> Inl e | Inr a \<Rightarrow> f a)"

fun mapE :: "('a \<Rightarrow> error + 'b) \<Rightarrow> 'a list \<Rightarrow> error + 'b list" where
  "mapE f [] = Inr []"
| "mapE f (x # xs) =
     (case f x of
        Inl e \<Rightarrow> Inl e
      | Inr y \<Rightarrow> (case mapE f xs of Inl e \<Rightarrow> Inl e | Inr ys \<Rightarrow> Inr (y # ys)))"

text \<open>\<open>len(x)\<close> and iteration over \<open>x\<close>, for the sequences that occur as arguments.\<close>

fun py_len :: "pyval \<Rightarrow> error + nat" where
  "py_len (PTuple xs) = Inr (length xs)"
| "py_len (PList xs) = Inr (length xs)"
| "py_len (PStr s) = Inr (length s)"
| "py_len v = Inl (TypeError ''len'')"

fun py_iter :: "pyval \<Rightarrow> error + pyval list" where
  "py_iter (PTuple xs) = Inr xs"
| "py_iter (PList xs) = Inr xs"
| "py_iter (PStr s) = Inr (map (\<lambda>c. PStr [c]) s)"
| "py_iter v = Inl (TypeError ''iter'')"

text \<open>\<open>cls(*color)\<close> for \<open>Color\<close>: at most four positional arguments.\<close>

definition Color_star :: "colorSpace \<Rightarrow> pyval list \<Rightarrow> error + color" where
  "Color_star cs xs =
     (case xs of
        [] \<Rightarrow> Inr (Color_init cs PNone PNone PNone (PInt 1))
      | [r] \<Rightarrow> Inr (Color_init cs r PNone PNone (PInt 1))
      | [r, g] \<Rightarrow> Inr (Color_init cs r g PNone (PInt 1))
      | [r, g, b] \<Rightarrow> Inr (Color_init cs r g b (PInt 1))
      | [r, g, b, a] \<Rightarrow> Inr (Color_init cs r g b a)
      | _ \<Rightarrow> Inl (TypeError ''__init__''))"

text \<open>
  \<open>Color.getColor\<close>.  Its first test, \<open>isinstance(color, cls.__class__)\<close>, asks whether
  the argument is a class and so never holds for a value.
\<close>

definition Color_getColor :: "colorSpace \<Rightarrow> pyval \<Rightarrow> error + color" where
  "Color_getColor cs v =
     (case v of
        PTuple xs \<Rightarrow> Color_star cs xs
      | PList xs \<Rightarrow> Color_star cs xs
      | PHandle h \<Rightarrow> Inr (Color_init cs (PHandle h) PNone PNone (PInt 1))
      | _ \<Rightarrow> Inl (DrawBotError ''Not a valid color''))"

definition Color_getColorsFromList :: "colorSpace \<Rightarrow> pyval \<Rightarrow> error + color list" where
  "Color_getColorsFromList cs inputColors =
     bindE (py_iter inputColors) (mapE (Color_getColor cs))"

record shadow =
  shadow_offset :: pyval
  shadow_blur :: pyval
  shadow_color :: color
  shadow_cmykColor :: "cmykColor option"

text \<open>\<open>Shadow.__init__\<close> with an offset that is not \<open>None\<close>.\<close>

definition Shadow_init :: "colorSpace \<Rightarrow> pyval \<Rightarrow> pyval \<Rightarrow> pyval \<Rightarrow> error + shadow" where
  "Shadow_init cs offset blur col =
     bindE (Color_getColor cs col) (\<lambda>c.
       Inr \<lparr>shadow_offset = offset, shadow_blur = blur, shadow_color = c,
            shadow_cmykColor = None\<rparr>)"

definition Shadow_copy :: "shadow \<Rightarrow> error + shadow" where
  "Shadow_copy s =
     bindE (Color_copy (shadow_color s)) (\<lambda>c.
       case shadow_cmykColor s of
         None \<Rightarrow> Inr \<lparr>shadow_offset = shadow_offset s, shadow_blur = shadow_blur s,
                      shadow_color = c, shadow_cmykColor = None\<rparr>
       | Some k \<Rightarrow> bindE (CMYKColor_copy k) (\<lambda>k'.
                    Inr \<lparr>shadow_offset = shadow_offset s, shadow_blur = shadow_blur s,
                         shadow_color = c, shadow_cmykColor = Some k'\<rparr>))"

record gradient =
  gradientType :: string
  gradient_colors :: "color list"
  gradient_cmykColors :: "cmykColor list option"
  gradient_positions :: pyval
  gradient_start :: pyval
  gradient_end :: pyval
  gradient_startRadius :: pyval
  gradient_endRadius :: pyval

text \<open>
  \<open>Gradient.__init__\<close> with a gradient type that is not \<open>None\<close>.  Without positions the
  colours are spread evenly: \<open>i / float(len(colors) - 1)\<close>.
\<close>

definition Gradient_init ::
  "colorSpace \<Rightarrow> string \<Rightarrow> pyval \<Rightarrow> pyval \<Rightarrow> pyval \<Rightarrow> pyval \<Rightarrow> pyval \<Rightarrow> pyval \<Rightarrow> error + gradient" where
  "Gradient_init cs gtype start end' colors positions startRadius endRadius =
     (if gtype \<noteq> ''linear'' \<and> gtype \<noteq> ''radial''
      then Inl (DrawBotError ''Gradient type must be either linear or radial'')
      else if \<not> truthy colors then Inl (DrawBotError ''Gradient needs at least 2 colors'')
      else bindE (py_len colors) (\<lambda>n.
        if n < 2 then Inl (DrawBotError ''Gradient needs at least 2 colors'')
        else
          let positions' =
                (if positions = PNone
                 then PList (map (\<lambda>i. PFloat (real i / real (n - 1))) [0..<n])
                 else positions)
          in bindE (py_len positions') (\<lambda>m.
               if n \<noteq> m then Inl (DrawBotError ''Gradient needs a correct position for each color'')
               else bindE (Color_getColorsFromList cs colors) (\<lambda>cols.
                 Inr \<lparr>gradientType = gtype, gradient_colors = cols, gradient_cmykColors = None,
                      gradient_positions = positions', gradient_start = start,
                      gradient_end = end', gradient_startRadius = startRadius,
                      gradient_endRadius = endRadius\<rparr>))))"

definition Gradient_copy :: "gradient \<Rightarrow> error + gradient" where
  "Gradient_copy g =
     bindE (mapE Color_copy (gradient_colors g)) (\<lambda>cols.
     bindE (case gradient_cmykColors g of
              None \<Rightarrow> Inr None
            | Some ks \<Rightarrow> (if ks = [] then Inr None
                          else bindE (mapE CMYKColor_copy ks) (\<lambda>ks'. Inr (Some ks')))) (\<lambda>cmyks.
     bindE (py_iter (gradient_positions g)) (\<lambda>ps.
       Inr \<lparr>gradientType = gradientType g, gradient_colors = cols, gradient_cmykColors = cmyks,
            gradient_positions = PList ps, gradient_start = gradient_start g,
            gradient_end = gradient_end g, gradient_startRadius = gradient_startRadius g,
            gradient_endRadius = gradient_endRadius g\<rparr>)))"

section \<open>Bezier paths\<close>

text \<open>
  A \<open>BezierPath\<close> is its native path, kept as the sequence of pen calls that built it, and
  the three SVG context properties.  Paths are values here: a path handed to a context and
  the path the context then holds are equal, but the model does not say they are one object.
\<close>

record bezierPath =
  path_elements :: "(string \<times> pyval list) list"
  path_svgID :: pyval
  path_svgClass :: pyval
  path_svgLink :: pyval

definition BezierPath_init :: bezierPath where
  "BezierPath_init = \<lparr>path_elements = [], path_svgID = PNone, path_svgClass = PNone,
                      path_svgLink = PNone\<rparr>"

definition BezierPath_pen :: "string \<Rightarrow> pyval list \<Rightarrow> bezierPath \<Rightarrow> bezierPath" where
  "BezierPath_pen name args p = p\<lparr>path_elements := path_elements p @ [(name, args)]\<rparr>"

text \<open>
  The validator of the SVG context properties, run whenever one is assigned:
  the value must be \<open>None\<close> or a string.
\<close>

definition stringValidator :: "pyval \<Rightarrow> bool" where
  "stringValidator v = (case v of PNone \<Rightarrow> True | PStr s \<Rightarrow> True | _ \<Rightarrow> False)"

definition BezierPath_copy :: "bezierPath \<Rightarrow> error + bezierPath" where
  "BezierPath_copy p =
     (if stringValidator (path_svgID p) \<and> stringValidator (path_svgClass p)
         \<and> stringValidator (path_svgLink p)
      then Inr \<lparr>path_elements = path_elements p, path_svgID = path_svgID p,
                path_svgClass = path_svgClass p, path_svgLink = path_svgLink p\<rparr>
      else Inl (DrawBotError ''must be a string''))"

section \<open>Text formatting state\<close>

text \<open>
  What the model takes from outside the repository's code: the operating system's font
  lookup behind \<open>_getNSFontFromNameOrPath\<close> (a font is found, or not, or the font number
  is out of range), the helper \<open>cmyk2rgb\<close>, and the size of the main screen.
\<close>

record env =
  findFont :: "string \<Rightarrow> pyval \<Rightarrow> pyval \<Rightarrow> error + bool"
  cmyk2rgb :: "pyval \<Rightarrow> pyval \<Rightarrow> pyval \<Rightarrow> pyval \<Rightarrow> pyval \<times> pyval \<times> pyval"
  screenSize :: "pyval \<times> pyval"

text \<open>\<open>getNSFontFromNameOrPath\<close>: whether a font was found.\<close>

definition getNSFontFromNameOrPath :: "env \<Rightarrow> pyval \<Rightarrow> pyval \<Rightarrow> pyval \<Rightarrow> error + bool" where
  "getNSFontFromNameOrPath E fontNameOrPath fontSize fontNumber =
     (case fontNameOrPath of
        PStr n \<Rightarrow> findFont E n fontSize fontNumber
      | _ \<Rightarrow> Inl (TypeError ''fontNameOrPath should be str or path-like''))"

text \<open>
  A \<open>FormattedString\<close>: the attributed string it wraps (opaque), one attribute per key of
  \<open>_formattedAttributes\<close>, and the SVG context properties.
\<close>

record formattedString =
  fs_attributedString :: string
  fs_font :: pyval
  fs_fallbackFont :: pyval
  fs_fallbackFontNumber :: pyval
  fs_fontSize :: pyval
  fs_fontNumber :: pyval
  fs_fill :: pyval
  fs_cmykFill :: pyval
  fs_stroke :: pyval
  fs_cmykStroke :: pyval
  fs_strokeWidth :: pyval
  fs_align :: pyval
  fs_lineHeight :: pyval
  fs_tracking :: pyval
  fs_baselineShift :: pyval
  fs_underline :: pyval
  fs_strikethrough :: pyval
  fs_url :: pyval
  fs_openTypeFeatures :: "string \<rightharpoonup> pyval"
  fs_fontVariations :: "string \<rightharpoonup> pyval"
  fs_tabs :: pyval
  fs_indent :: pyval
  fs_tailIndent :: pyval
  fs_firstLineIndent :: pyval
  fs_paragraphTopSpacing :: pyval
  fs_paragraphBottomSpacing :: pyval
  fs_language :: pyval
  fs_writingDirection :: pyval
  fs_svgID :: pyval
  fs_svgClass :: pyval
  fs_svgLink :: pyval

text \<open>The object after \<open>clear()\<close> and the loop over \<open>_formattedAttributes\<close> in \<open>__init__\<close>.\<close>

definition FormattedString_defaults :: formattedString where
  "FormattedString_defaults =
     \<lparr>fs_attributedString = [],
      fs_font = PStr ''LucidaGrande'', fs_fallbackFont = PNone, fs_fallbackFontNumber = PInt 0,
      fs_fontSize = PInt 10, fs_fontNumber = PInt 0,
      fs_fill = PTuple [PInt 0, PInt 0, PInt 0], fs_cmykFill = PNone,
      fs_stroke = PNone, fs_cmykStroke = PNone, fs_strokeWidth = PInt 1,
      fs_align = PNone, fs_lineHeight = PNone, fs_tracking = PNone, fs_baselineShift = PNone,
      fs_underline = PNone, fs_strikethrough = PNone, fs_url = PNone,
      fs_openTypeFeatures = Map.empty, fs_fontVariations = Map.empty,
      fs_tabs = PNone, fs_indent = PNone, fs_tailIndent = PNone, fs_firstLineIndent = PNone,
      fs_paragraphTopSpacing = PNone, fs_paragraphBottomSpacing = PNone,
      fs_language = PNone, fs_writingDirection = PNone,
      fs_svgID = PNone, fs_svgClass = PNone, fs_svgLink = PNone\<rparr>"

definition FormattedString_font ::
  "env \<Rightarrow> pyval \<Rightarrow> pyval \<Rightarrow> pyval \<Rightarrow> formattedString \<Rightarrow> formattedString result" where
  "FormattedString_font E fontNameOrPath fontSize fontNumber s =
     (let s1 = s\<lparr>fs_font := fontNameOrPath\<rparr>;
          s2 = (if fontSize \<noteq> PNone then s1\<lparr>fs_fontSize := fontSize\<rparr> else s1);
          s3 = s2\<lparr>fs_fontNumber := fontNumber\<rparr>
      in case getNSFontFromNameOrPath E fontNameOrPath
                (if truthy fontSize then fontSize else PInt 10) fontNumber of
           Inl e \<Rightarrow> Inl (e, s3)
         | Inr found \<Rightarrow> Inr s3)"

definition FormattedString_fallbackFont ::
  "env \<Rightarrow> pyval \<Rightarrow> pyval \<Rightarrow> formattedString \<Rightarrow> formattedString result" where
  "FormattedString_fallbackFont E fontNameOrPath fontNumber s =
     (let done = s\<lparr>fs_fallbackFont := fontNameOrPath, fs_fallbackFontNumber := fontNumber\<rparr>
      in if fontNameOrPath \<noteq> PNone
         then (case getNSFontFromNameOrPath E fontNameOrPath (PInt 10) fontNumber of
                 Inl e \<Rightarrow> Inl (e, s)
               | Inr found \<Rightarrow>
                   if found then Inr done
                   else Inl (DrawBotError ''Fallback font is not available'', s))
         else Inr done)"

definition FormattedString_fill ::
  "pyval \<Rightarrow> pyval \<Rightarrow> pyval \<Rightarrow> pyval \<Rightarrow> formattedString \<Rightarrow> formattedString" where
  "FormattedString_fill r g b alpha s =
     s\<lparr>fs_fill := (if r = PNone then PNone
                   else PTuple (filter (\<lambda>i. i \<noteq> PNone) [r, g, b, alpha])),
       fs_cmykFill := PNone\<rparr>"

definition FormattedString_stroke ::
  "pyval \<Rightarrow> pyval \<Rightarrow> pyval \<Rightarrow> pyval \<Rightarrow> formattedString \<Rightarrow> formattedString" where
  "FormattedString_stroke r g b alpha s =
     s\<lparr>fs_stroke := (if r = PNone then PNone
                     else PTuple (filter (\<lambda>i. i \<noteq> PNone) [r, g, b, alpha])),
       fs_cmykStroke := PNone\<rparr>"

definition FormattedString_cmykFill ::
  "pyval \<Rightarrow> pyval \<Rightarrow> pyval \<Rightarrow> pyval \<Rightarrow> pyval \<Rightarrow> formattedString \<Rightarrow> formattedString" where
  "FormattedString_cmykFill c m y k alpha s =
     s\<lparr>fs_cmykFill := (if c = PNone then PNone else PTuple [c, m, y, k, alpha]),
       fs_fill := PNone\<rparr>"

definition FormattedString_cmykStroke ::
  "pyval \<Rightarrow> pyval \<Rightarrow> pyval \<Rightarrow> pyval \<Rightarrow> pyval \<Rightarrow> formattedString \<Rightarrow> formattedString" where
  "FormattedString_cmykStroke c m y k alpha s =
     s\<lparr>fs_cmykStroke := (if c = PNone then PNone else PTuple [c, m, y, k, alpha]),
       fs_stroke := PNone\<rparr>"

text \<open>
  Membership of a value in a dictionary keyed by strings; on an unhashable value the
  test itself raises.
\<close>

definition in_keys :: "string list \<Rightarrow> pyval \<Rightarrow> error + bool" where
  "in_keys ks v =
     (if \<not> hashable v then Inl (TypeError ''unhashable type'')
      else case v of PStr s \<Rightarrow> Inr (s \<in> set ks) | _ \<Rightarrow> Inr False)"

definition FormattedString_underline :: "pyval \<Rightarrow> formattedString \<Rightarrow> formattedString result" where
  "FormattedString_underline underline s =
     (if underline = PNone then Inr (s\<lparr>fs_underline := underline\<rparr>)
      else case in_keys [''single'', ''thick'', ''double''] underline of
             Inl e \<Rightarrow> Inl (e, s)
           | Inr ok \<Rightarrow> if ok then Inr (s\<lparr>fs_underline := underline\<rparr>)
                       else Inl (DrawBotError ''underline must be double, single, thick'', s))"

definition FormattedString_strikethrough :: "pyval \<Rightarrow> formattedString \<Rightarrow> formattedString result" where
  "FormattedString_strikethrough strikethrough s =
     (if strikethrough = PNone then Inr (s\<lparr>fs_strikethrough := strikethrough\<rparr>)
      else case in_keys [''single'', ''thick'', ''double''] strikethrough of
             Inl e \<Rightarrow> Inl (e, s)
           | Inr ok \<Rightarrow> if ok then Inr (s\<lparr>fs_strikethrough := strikethrough\<rparr>)
                       else Inl (DrawBotError ''strikethrough must be double, single, thick'', s))"

definition FormattedString_writingDirection :: "pyval \<Rightarrow> formattedString \<Rightarrow> formattedString result" where
  "FormattedString_writingDirection direction s =
     (if direction = PNone then Inr (s\<lparr>fs_writingDirection := direction\<rparr>)
      else case in_keys [''LTR'', ''RTL''] direction of
             Inl e \<Rightarrow> Inl (e, s)
           | Inr ok \<Rightarrow> if ok then Inr (s\<lparr>fs_writingDirection := direction\<rparr>)
                       else Inl (DrawBotError ''writing direction must be LTR, RTL'', s))"

text \<open>
  \<open>openTypeFeatures(*args, **features)\<close>: a positional \<open>None\<close> clears the features; the
  keyword \<open>resetFeatures\<close> is taken out of the keywords and, when true, clears them before
  the rest is merged in.
\<close>

definition pop_key :: "string \<Rightarrow> (string \<rightharpoonup> pyval) \<Rightarrow> (string \<rightharpoonup> pyval)" where
  "pop_key k m = m(k := None)"

definition popped_truthy :: "string \<Rightarrow> (string \<rightharpoonup> pyval) \<Rightarrow> bool" where
  "popped_truthy k m = (case m k of None \<Rightarrow> False | Some v \<Rightarrow> truthy v)"

definition FormattedString_openTypeFeatures ::
  "pyval list \<Rightarrow> (string \<rightharpoonup> pyval) \<Rightarrow> formattedString \<Rightarrow> formattedString result" where
  "FormattedString_openTypeFeatures args features s =
     (if args \<noteq> [] \<and> features \<noteq> Map.empty
      then Inl (DrawBotError ''Cannot combine positional arguments and keyword arguments'', s)
      else if args \<noteq> []
      then (if length args \<noteq> 1
            then Inl (DrawBotError ''There can only be one positional argument'', s)
            else if hd args \<noteq> PNone
            then Inl (DrawBotError ''First positional argument can only be None'', s)
            else Inr (s\<lparr>fs_openTypeFeatures := Map.empty\<rparr>))
      else Inr (s\<lparr>fs_openTypeFeatures :=
                   (if popped_truthy ''resetFeatures'' features then Map.empty
                    else fs_openTypeFeatures s) ++ pop_key ''resetFeatures'' features\<rparr>))"

text \<open>
  \<open>fontVariations(*args, **axes)\<close> likewise; afterwards the axes of the current font are
  listed, which looks the font up again.
\<close>

definition FormattedString_fontVariations ::
  "env \<Rightarrow> pyval list \<Rightarrow> (string \<rightharpoonup> pyval) \<Rightarrow> formattedString \<Rightarrow> formattedString result" where
  "FormattedString_fontVariations E args axes s =
     (if args \<noteq> [] \<and> axes \<noteq> Map.empty
      then Inl (DrawBotError ''Cannot combine positional arguments and keyword arguments'', s)
      else if args \<noteq> [] \<and> length args \<noteq> 1
      then Inl (DrawBotError ''There can only be one positional argument'', s)
      else if args \<noteq> [] \<and> hd args \<noteq> PNone
      then Inl (DrawBotError ''First positional argument can only be None'', s)
      else
        let s' = (if args \<noteq> [] then s\<lparr>fs_fontVariations := Map.empty\<rparr>
                  else s\<lparr>fs_fontVariations :=
                          (if popped_truthy ''resetVariations'' axes then Map.empty
                           else fs_fontVariations s) ++ pop_key ''resetVariations'' axes\<rparr>)
        in case getNSFontFromNameOrPath E (fs_font s') (PInt 10) (PInt 0) of
             Inl e \<Rightarrow> Inl (e, s')
           | Inr found \<Rightarrow> Inr s')"

definition FormattedString_tabs :: "pyval \<Rightarrow> pyval list \<Rightarrow> formattedString \<Rightarrow> formattedString" where
  "FormattedString_tabs tab tabs s =
     (if tab = PNone then s\<lparr>fs_tabs := PNone\<rparr> else s\<lparr>fs_tabs := PList (tab # tabs)\<rparr>)"

text \<open>
  Calling a method of the formatted string by name with positional arguments, as
  \<open>_setAttribute\<close> does through \<open>getattr\<close>.  Parameters with a default may be left out;
  any other number of arguments is a \<open>TypeError\<close>.
\<close>

definition arg_or :: "pyval list \<Rightarrow> nat \<Rightarrow> pyval \<Rightarrow> pyval" where
  "arg_or xs i d = (if i < length xs then xs ! i else d)"

definition one_arg ::
  "pyval list \<Rightarrow> formattedString \<Rightarrow> (pyval \<Rightarrow> formattedString) \<Rightarrow> formattedString result" where
  "one_arg xs s f = (case xs of [v] \<Rightarrow> Inr (f v) | _ \<Rightarrow> Inl (TypeError ''positional arguments'', s))"

definition FormattedString_call ::
  "env \<Rightarrow> string \<Rightarrow> pyval list \<Rightarrow> formattedString \<Rightarrow> formattedString result" where
  "FormattedString_call E name xs s =
     (if name = ''font'' then
        (if xs = [] \<or> 3 < length xs then Inl (TypeError ''positional arguments'', s)
         else FormattedString_font E (xs ! 0) (arg_or xs 1 PNone) (arg_or xs 2 (PInt 0)) s)
      else if name = ''fallbackFont'' then
        (if xs = [] \<or> 2 < length xs then Inl (TypeError ''positional arguments'', s)
         else FormattedString_fallbackFont E (xs ! 0) (arg_or xs 1 (PInt 0)) s)
      else if name = ''fallbackFontNumber'' then one_arg xs s (\<lambda>v. s\<lparr>fs_fallbackFontNumber := v\<rparr>)
      else if name = ''fontSize'' then one_arg xs s (\<lambda>v. s\<lparr>fs_fontSize := v\<rparr>)
      else if name = ''fontNumber'' then one_arg xs s (\<lambda>v. s\<lparr>fs_fontNumber := v\<rparr>)
      else if name = ''fill'' then
        (if 4 < length xs then Inl (TypeError ''positional arguments'', s)
         else Inr (FormattedString_fill (arg_or xs 0 PNone) (arg_or xs 1 PNone)
                     (arg_or xs 2 PNone) (arg_or xs 3 (PInt 1)) s))
      else if name = ''cmykFill'' then
        (if 5 < length xs then Inl (TypeError ''positional arguments'', s)
         else Inr (FormattedString_cmykFill (arg_or xs 0 PNone) (arg_or xs 1 PNone)
                     (arg_or xs 2 PNone) (arg_or xs 3 PNone) (arg_or xs 4 (PInt 1)) s))
      else if name = ''stroke'' then
        (if 4 < length xs then Inl (TypeError ''positional arguments'', s)
         else Inr (FormattedString_stroke (arg_or xs 0 PNone) (arg_or xs 1 PNone)
                     (arg_or xs 2 PNone) (arg_or xs 3 (PInt 1)) s))
      else if name = ''cmykStroke'' then
        (if 5 < length xs then Inl (TypeError ''positional arguments'', s)
         else Inr (FormattedString_cmykStroke (arg_or xs 0 PNone) (arg_or xs 1 PNone)
                     (arg_or xs 2 PNone) (arg_or xs 3 PNone) (arg_or xs 4 (PInt 1)) s))
      else if name = ''strokeWidth'' then one_arg xs s (\<lambda>v. s\<lparr>fs_strokeWidth := v\<rparr>)
      else if name = ''align'' then one_arg xs s (\<lambda>v. s\<lparr>fs_align := v\<rparr>)
      else if name = ''lineHeight'' then one_arg xs s (\<lambda>v. s\<lparr>fs_lineHeight := v\<rparr>)
      else if name = ''tracking'' then one_arg xs s (\<lambda>v. s\<lparr>fs_tracking := v\<rparr>)
      else if name = ''baselineShift'' then one_arg xs s (\<lambda>v. s\<lparr>fs_baselineShift := v\<rparr>)
      else if name = ''underline'' then
        (case xs of [v] \<Rightarrow> FormattedString_underline v s
                  | _ \<Rightarrow> Inl (TypeError ''positional arguments'', s))
      else if name = ''strikethrough'' then
        (case xs of [v] \<Rightarrow> FormattedString_strikethrough v s
                  | _ \<Rightarrow> Inl (TypeError ''positional arguments'', s))
      else if name = ''url'' then one_arg xs s (\<lambda>v. s\<lparr>fs_url := v\<rparr>)
      else if name = ''openTypeFeatures'' then FormattedString_openTypeFeatures xs Map.empty s
      else if name = ''fontVariations'' then FormattedString_fontVariations E xs Map.empty s
      else if name = ''tabs'' then
        (case xs of [] \<Rightarrow> Inl (TypeError ''positional arguments'', s)
                  | tab # tabs \<Rightarrow> Inr (FormattedString_tabs tab tabs s))
      else if name = ''indent'' then one_arg xs s (\<lambda>v. s\<lparr>fs_indent := v\<rparr>)
      else if name = ''tailIndent'' then one_arg xs s (\<lambda>v. s\<lparr>fs_tailIndent := v\<rparr>)
      else if name = ''firstLineIndent'' then one_arg xs s (\<lambda>v. s\<lparr>fs_firstLineIndent := v\<rparr>)
      else if name = ''paragraphTopSpacing'' then
        one_arg xs s (\<lambda>v. s\<lparr>fs_paragraphTopSpacing := v\<rparr>)
      else if name = ''paragraphBottomSpacing'' then
        one_arg xs s (\<lambda>v. s\<lparr>fs_paragraphBottomSpacing := v\<rparr>)
      else if name = ''language'' then one_arg xs s (\<lambda>v. s\<lparr>fs_language := v\<rparr>)
      else if name = ''writingDirection'' then
        (case xs of [v] \<Rightarrow> FormattedString_writingDirection v s
                  | _ \<Rightarrow> Inl (TypeError ''positional arguments'', s))
      else Inl (AttributeError name, s))"

text \<open>
  The value of an attribute is a plain value or, for the OpenType features and the font
  variations, a dictionary.  \<open>_setAttribute\<close> spreads a list or tuple over the positional
  parameters, a dictionary over the keywords, and passes anything else as one argument.
\<close>

datatype attrval = Val pyval | Dict "string \<rightharpoonup> pyval"

definition FormattedString_setAttribute ::
  "env \<Rightarrow> string \<times> attrval \<Rightarrow> formattedString \<Rightarrow> formattedString result" where
  "FormattedString_setAttribute E kv s =
     (case snd kv of
        Val (PTuple xs) \<Rightarrow> FormattedString_call E (fst kv) xs s
      | Val (PList xs) \<Rightarrow> FormattedString_call E (fst kv) xs s
      | Val v \<Rightarrow> FormattedString_call E (fst kv) [v] s
      | Dict d \<Rightarrow>
          (if fst kv = ''openTypeFeatures'' then FormattedString_openTypeFeatures [] d s
           else if fst kv = ''fontVariations'' then FormattedString_fontVariations E [] d s
           else Inl (TypeError ''unexpected keyword argument'', s)))"

fun foldR :: "('a \<Rightarrow> 's \<Rightarrow> 's result) \<Rightarrow> 'a list \<Rightarrow> 's \<Rightarrow> 's result" where
  "foldR f [] s = Inr s"
| "foldR f (x # xs) s = (case f x s of Inl es \<Rightarrow> Inl es | Inr s' \<Rightarrow> foldR f xs s')"

text \<open>
  \<open>_setColorAttributes\<close>, given the four colour attributes of the keywords: each one that
  is not \<open>None\<close> is stored as it is; a colour without a length is wrapped in a tuple; then
  a fill that is set wins over a CMYK fill, and the same for the stroke.
\<close>

definition wrap_len :: "pyval \<Rightarrow> pyval" where
  "wrap_len v = (if v = PNone then v
                 else case py_len v of Inl e \<Rightarrow> PTuple [v] | Inr n \<Rightarrow> v)"

definition FormattedString_setColorAttributes ::
  "pyval \<Rightarrow> pyval \<Rightarrow> pyval \<Rightarrow> pyval \<Rightarrow> formattedString \<Rightarrow> formattedString" where
  "FormattedString_setColorAttributes fill stroke cmykFill cmykStroke s =
     (let s1 = (if fill \<noteq> PNone then s\<lparr>fs_fill := fill\<rparr> else s);
          s2 = (if stroke \<noteq> PNone then s1\<lparr>fs_stroke := stroke\<rparr> else s1);
          s3 = (if cmykFill \<noteq> PNone then s2\<lparr>fs_cmykFill := cmykFill\<rparr> else s2);
          s4 = (if cmykStroke \<noteq> PNone then s3\<lparr>fs_cmykStroke := cmykStroke\<rparr> else s3);
          s5 = s4\<lparr>fs_fill := wrap_len (fs_fill s4)\<rparr>;
          s6 = s5\<lparr>fs_stroke := wrap_len (fs_stroke s5)\<rparr>;
          s7 = (if truthy (fs_fill s6) then s6\<lparr>fs_cmykFill := PNone\<rparr>
                else if truthy (fs_cmykFill s6) then s6\<lparr>fs_fill := PNone\<rparr> else s6)
      in (if truthy (fs_stroke s7) then s7\<lparr>fs_cmykStroke := PNone\<rparr>
          else if truthy (fs_cmykStroke s7) then s7\<lparr>fs_stroke := PNone\<rparr> else s7))"

text \<open>
  The keywords \<open>copy\<close> passes to the constructor: every formatted attribute of the
  original, in the order of \<open>_formattedAttributes\<close>.
\<close>

definition FormattedString_attributes :: "formattedString \<Rightarrow> (string \<times> attrval) list" where
  "FormattedString_attributes s =
     [(''font'', Val (fs_font s)), (''fallbackFont'', Val (fs_fallbackFont s)),
      (''fallbackFontNumber'', Val (fs_fallbackFontNumber s)),
      (''fontSize'', Val (fs_fontSize s)), (''fontNumber'', Val (fs_fontNumber s)),
      (''fill'', Val (fs_fill s)), (''cmykFill'', Val (fs_cmykFill s)),
      (''stroke'', Val (fs_stroke s)), (''cmykStroke'', Val (fs_cmykStroke s)),
      (''strokeWidth'', Val (fs_strokeWidth s)), (''align'', Val (fs_align s)),
      (''lineHeight'', Val (fs_lineHeight s)), (''tracking'', Val (fs_tracking s)),
      (''baselineShift'', Val (fs_baselineShift s)), (''underline'', Val (fs_underline s)),
      (''strikethrough'', Val (fs_strikethrough s)), (''url'', Val (fs_url s)),
      (''openTypeFeatures'', Dict (fs_openTypeFeatures s)),
      (''fontVariations'', Dict (fs_fontVariations s)),
      (''tabs'', Val (fs_tabs s)), (''indent'', Val (fs_indent s)),
      (''tailIndent'', Val (fs_tailIndent s)), (''firstLineIndent'', Val (fs_firstLineIndent s)),
      (''paragraphTopSpacing'', Val (fs_paragraphTopSpacing s)),
      (''paragraphBottomSpacing'', Val (fs_paragraphBottomSpacing s)),
      (''language'', Val (fs_language s)), (''writingDirection'', Val (fs_writingDirection s))]"

text \<open>
  \<open>FormattedString.copy\<close>: a new object built from those keywords (no text is given, so
  each keyword is applied through its method and the colours are fixed up), then the copy
  of the attributed string and of the SVG context properties, which are validated as
  they are assigned.
\<close>

definition FormattedString_copy :: "env \<Rightarrow> formattedString \<Rightarrow> error + formattedString" where
  "FormattedString_copy E s =
     (case foldR (FormattedString_setAttribute E) (FormattedString_attributes s)
             FormattedString_defaults of
        Inl (e, partial) \<Rightarrow> Inl e
      | Inr new \<Rightarrow>
          (let new1 = FormattedString_setColorAttributes (fs_fill s) (fs_stroke s)
                        (fs_cmykFill s) (fs_cmykStroke s) new;
               new2 = new1\<lparr>fs_attributedString := fs_attributedString s\<rparr>
           in if stringValidator (fs_svgID s) \<and> stringValidator (fs_svgClass s)
                 \<and> stringValidator (fs_svgLink s)
              then Inr (new2\<lparr>fs_svgID := fs_svgID s, fs_svgClass := fs_svgClass s,
                             fs_svgLink := fs_svgLink s\<rparr>)
              else Inl (DrawBotError ''must be a string'')))"

section \<open>The graphics state\<close>

datatype lineJoinStyle = LineJoinMiter | LineJoinRound | LineJoinBevel

datatype lineCapStyle = LineCapButt | LineCapSquare | LineCapRound

record graphicsState =
  colorSpace :: colorSpace
  blendMode :: pyval
  opacity :: pyval
  fillColor :: "color option"
  strokeColor :: "color option"
  cmykFillColor :: "cmykColor option"
  cmykStrokeColor :: "cmykColor option"
  shadow :: "shadow option"
  gradient :: "gradient option"
  strokeWidth :: pyval
  lineDash :: pyval
  lineDashOffset :: pyval
  lineCap :: "lineCapStyle option"
  lineJoin :: "lineJoinStyle option"
  miterLimit :: pyval
  textState :: formattedString
  hyphenation :: pyval
  path :: "bezierPath option"

text \<open>
  \<open>GraphicsState.__init__\<close>; the colour space is the class attribute \<open>Color.colorSpace\<close>
  at the time of the call, and the fill is black in it.
\<close>

definition GraphicsState_init :: "colorSpace \<Rightarrow> graphicsState" where
  "GraphicsState_init cs =
     \<lparr>colorSpace = cs, blendMode = PNone, opacity = PInt 1,
      fillColor = Some (Color_init cs (PInt 0) PNone PNone (PInt 1)),
      strokeColor = None, cmykFillColor = None, cmykStrokeColor = None,
      shadow = None, gradient = None, strokeWidth = PInt 1,
      lineDash = PNone, lineDashOffset = PInt 0, lineCap = None, lineJoin = None,
      miterLimit = PInt 10, textState = FormattedString_defaults, hyphenation = PNone,
      path = None\<rparr>"

text \<open>Copying an optional member: \<open>None\<close> stays \<open>None\<close>, anything else is copied.\<close>

definition copy_opt :: "('a \<Rightarrow> error + 'a) \<Rightarrow> 'a option \<Rightarrow> error + 'a option" where
  "copy_opt f x = (case x of None \<Rightarrow> Inr None | Some v \<Rightarrow> bindE (f v) (\<lambda>v'. Inr (Some v')))"

text \<open>
  \<open>GraphicsState.copy\<close>: a fresh state, then one assignment per field in the order of the
  source.  The fields guarded by a test keep the \<open>None\<close> of the fresh state when the test
  fails; a colour, shadow or gradient object is always true.
\<close>

definition GraphicsState_copy :: "env \<Rightarrow> colorSpace \<Rightarrow> graphicsState \<Rightarrow> error + graphicsState" where
  "GraphicsState_copy E cs s =
     (let new0 = (GraphicsState_init cs)
                   \<lparr>colorSpace := colorSpace s, blendMode := blendMode s, opacity := opacity s\<rparr>
      in bindE (copy_opt Color_copy (fillColor s)) (\<lambda>fc.
         bindE (copy_opt Color_copy (strokeColor s)) (\<lambda>sc.
         bindE (copy_opt CMYKColor_copy (cmykFillColor s)) (\<lambda>cf.
         bindE (copy_opt CMYKColor_copy (cmykStrokeColor s)) (\<lambda>csk.
         bindE (copy_opt Shadow_copy (shadow s)) (\<lambda>sh.
         bindE (copy_opt Gradient_copy (gradient s)) (\<lambda>gr.
         bindE (copy_opt BezierPath_copy (path s)) (\<lambda>pa.
         bindE (FormattedString_copy E (textState s)) (\<lambda>tx.
         bindE (if lineDash s \<noteq> PNone
                then bindE (py_iter (lineDash s)) (\<lambda>xs. Inr (PList xs))
                else Inr (lineDash new0)) (\<lambda>ld.
           Inr (new0\<lparr>fillColor := fc, strokeColor := sc, cmykFillColor := cf,
                     cmykStrokeColor := csk, shadow := sh, gradient := gr, path := pa,
                     textState := tx, hyphenation := hyphenation s,
                     strokeWidth := strokeWidth s, lineCap := lineCap s, lineDash := ld,
                     lineDashOffset := lineDashOffset s, lineJoin := lineJoin s,
                     miterLimit := miterLimit s\<rparr>)))))))))))"

section \<open>The context: one current state and a stack of saved ones\<close>

text \<open>
  A \<open>BaseContext\<close>.  The saved states are a Python list used as a stack: \<open>save\<close> appends,
  \<open>restore\<close> pops the last element.  \<open>Color_colorSpace\<close> is the class attribute
  \<open>Color.colorSpace\<close>, which \<open>reset\<close>, \<open>colorSpace\<close> and \<open>restore\<close> assign.
  The hooks \<open>_save\<close>, \<open>_restore\<close>, \<open>_newPage\<close>, \<open>_drawPath\<close> and the like do nothing
  in \<open>BaseContext\<close>.
\<close>

record baseContext =
  ctx_width :: pyval
  ctx_height :: pyval
  ctx_hasPage :: bool
  ctx_stack :: "graphicsState list"
  ctx_state :: graphicsState
  Color_colorSpace :: colorSpace

text \<open>
  \<open>BaseContext.__init__\<close>, which calls \<open>reset\<close>: the fresh state is made first, under
  whatever \<open>Color.colorSpace\<close> is then, and only afterwards is that attribute set back
  to generic RGB.
\<close>

definition BaseContext_init :: "colorSpace \<Rightarrow> baseContext" where
  "BaseContext_init cs =
     \<lparr>ctx_width = PNone, ctx_height = PNone, ctx_hasPage = False, ctx_stack = [],
      ctx_state = GraphicsState_init cs, Color_colorSpace = GenericRGB\<rparr>"

text \<open>
  Modelled from the spec: the class \<open>DummyContext\<close>, whose file
  \<open>drawBot/context/dummyContext.py\<close> is not among the sources.  The specification
  describes the dummy context as the non-rendering graphics-state stack used purely for
  validation and synchronous queries, driven by the same operation semantics as a backend:
  a \<open>BaseContext\<close> with no method overridden.
\<close>

definition DummyContext_init :: "colorSpace \<Rightarrow> baseContext" where
  [simp]: "DummyContext_init cs = BaseContext_init cs"

definition BaseContext_size :: "pyval \<Rightarrow> pyval \<Rightarrow> baseContext \<Rightarrow> baseContext" where
  "BaseContext_size w h c =
     (let c1 = (if w \<noteq> PNone then c\<lparr>ctx_width := w\<rparr> else c)
      in (if h \<noteq> PNone then c1\<lparr>ctx_height := h\<rparr> else c1))"

definition BaseContext_newPage :: "pyval \<Rightarrow> pyval \<Rightarrow> baseContext \<Rightarrow> baseContext result" where
  "BaseContext_newPage w h c =
     (if ctx_width c = PNone \<and> w = PNone then Inl (DrawBotError ''A page must have a width'', c)
      else if ctx_height c = PNone \<and> h = PNone
      then Inl (DrawBotError ''A page must have a height'', c)
      else Inr (c\<lparr>ctx_hasPage := True\<rparr>))"

definition BaseContext_save :: "env \<Rightarrow> baseContext \<Rightarrow> baseContext result" where
  "BaseContext_save E c =
     (case GraphicsState_copy E (Color_colorSpace c) (ctx_state c) of
        Inl e \<Rightarrow> Inl (e, c)
      | Inr s \<Rightarrow> Inr (c\<lparr>ctx_stack := ctx_stack c @ [s]\<rparr>))"

definition BaseContext_restore :: "baseContext \<Rightarrow> baseContext result" where
  "BaseContext_restore c =
     (if ctx_stack c = []
      then Inl (DrawBotError ''can't restore graphics state: no matching save()'', c)
      else Inr (c\<lparr>ctx_state := last (ctx_stack c), ctx_stack := butlast (ctx_stack c),
                   Color_colorSpace := colorSpace (last (ctx_stack c))\<rparr>))"

text \<open>Path construction on the current state.\<close>

definition set_path :: "bezierPath option \<Rightarrow> baseContext \<Rightarrow> baseContext" where
  "set_path p c = c\<lparr>ctx_state := (ctx_state c)\<lparr>path := p\<rparr>\<rparr>"

definition BaseContext_drawPath :: "bezierPath option \<Rightarrow> baseContext \<Rightarrow> baseContext" where
  "BaseContext_drawPath p c = (if p \<noteq> None then set_path p c else c)"

definition BaseContext_clipPath :: "bezierPath option \<Rightarrow> baseContext \<Rightarrow> baseContext" where
  "BaseContext_clipPath p c = (if p \<noteq> None then set_path p c else c)"

definition BaseContext_rect :: "pyval \<Rightarrow> pyval \<Rightarrow> pyval \<Rightarrow> pyval \<Rightarrow> baseContext \<Rightarrow> baseContext" where
  "BaseContext_rect x y w h c =
     BaseContext_drawPath (Some (BezierPath_pen ''rect'' [x, y, w, h] BezierPath_init)) c"

definition BaseContext_oval :: "pyval \<Rightarrow> pyval \<Rightarrow> pyval \<Rightarrow> pyval \<Rightarrow> baseContext \<Rightarrow> baseContext" where
  "BaseContext_oval x y w h c =
     BaseContext_drawPath
       (Some (BezierPath_pen ''closePath'' [] (BezierPath_pen ''oval'' [x, y, w, h] BezierPath_init))) c"

definition BaseContext_newPath :: "baseContext \<Rightarrow> baseContext" where
  "BaseContext_newPath c = set_path (Some BezierPath_init) c"

definition BaseContext_moveTo :: "pyval \<Rightarrow> baseContext \<Rightarrow> baseContext result" where
  "BaseContext_moveTo pt c =
     (case path (ctx_state c) of
        None \<Rightarrow> Inl (DrawBotError ''Create a new path first'', c)
      | Some p \<Rightarrow> Inr (set_path (Some (BezierPath_pen ''moveTo'' [pt] p)) c))"

text \<open>
  The other pen calls do not test for a missing path: on \<open>None\<close> the attribute lookup
  fails.
\<close>

definition BaseContext_pen :: "string \<Rightarrow> pyval list \<Rightarrow> baseContext \<Rightarrow> baseContext result" where
  "BaseContext_pen name args c =
     (case path (ctx_state c) of
        None \<Rightarrow> Inl (AttributeError name, c)
      | Some p \<Rightarrow> Inr (set_path (Some (BezierPath_pen name args p)) c))"

definition BaseContext_lineTo :: "pyval \<Rightarrow> baseContext \<Rightarrow> baseContext result" where
  "BaseContext_lineTo pt c = BaseContext_pen ''lineTo'' [pt] c"

definition BaseContext_curveTo :: "pyval \<Rightarrow> pyval \<Rightarrow> pyval \<Rightarrow> baseContext \<Rightarrow> baseContext result" where
  "BaseContext_curveTo pt1 pt2 pt c = BaseContext_pen ''curveTo'' [pt1, pt2, pt] c"

definition BaseContext_closePath :: "baseContext \<Rightarrow> baseContext result" where
  "BaseContext_closePath c = BaseContext_pen ''closePath'' [] c"

text \<open>Colours.\<close>

definition upd_text :: "(formattedString \<Rightarrow> formattedString) \<Rightarrow> baseContext \<Rightarrow> baseContext" where
  "upd_text f c = c\<lparr>ctx_state := (ctx_state c)\<lparr>textState := f (textState (ctx_state c))\<rparr>\<rparr>"

definition BaseContext_fill ::
  "pyval \<Rightarrow> pyval \<Rightarrow> pyval \<Rightarrow> pyval \<Rightarrow> baseContext \<Rightarrow> baseContext" where
  "BaseContext_fill r g b a c =
     (let c1 = upd_text (FormattedString_fill r g b a) c;
          c2 = c1\<lparr>ctx_state := (ctx_state c1)\<lparr>cmykFillColor := None\<rparr>\<rparr>
      in if r = PNone then c2\<lparr>ctx_state := (ctx_state c2)\<lparr>fillColor := None\<rparr>\<rparr>
         else c2\<lparr>ctx_state := (ctx_state c2)
                   \<lparr>fillColor := Some (Color_init (Color_colorSpace c2) r g b a),
                    gradient := None\<rparr>\<rparr>)"

definition BaseContext_cmykFill ::
  "env \<Rightarrow> pyval \<Rightarrow> pyval \<Rightarrow> pyval \<Rightarrow> pyval \<Rightarrow> pyval \<Rightarrow> baseContext \<Rightarrow> baseContext" where
  "BaseContext_cmykFill E c' m y k a c =
     (let c1 = upd_text (FormattedString_cmykFill c' m y k a) c
      in if c' = PNone then BaseContext_fill PNone PNone PNone (PInt 1) c1
         else (case cmyk2rgb E c' m y k of
                 (r, g, b) \<Rightarrow>
                   c1\<lparr>ctx_state := (ctx_state c1)
                        \<lparr>cmykFillColor := Some (CMYKColor_init c' m y k a),
                         fillColor := Some (Color_init (Color_colorSpace c1) r g b a),
                         gradient := None\<rparr>\<rparr>))"

definition BaseContext_stroke ::
  "pyval \<Rightarrow> pyval \<Rightarrow> pyval \<Rightarrow> pyval \<Rightarrow> baseContext \<Rightarrow> baseContext" where
  "BaseContext_stroke r g b a c =
     (let c1 = upd_text (FormattedString_stroke r g b a) c;
          c2 = c1\<lparr>ctx_state := (ctx_state c1)\<lparr>cmykStrokeColor := None\<rparr>\<rparr>
      in if r = PNone then c2\<lparr>ctx_state := (ctx_state c2)\<lparr>strokeColor := None\<rparr>\<rparr>
         else c2\<lparr>ctx_state := (ctx_state c2)
                   \<lparr>strokeColor := Some (Color_init (Color_colorSpace c2) r g b a)\<rparr>\<rparr>)"

definition BaseContext_cmykStroke ::
  "env \<Rightarrow> pyval \<Rightarrow> pyval \<Rightarrow> pyval \<Rightarrow> pyval \<Rightarrow> pyval \<Rightarrow> baseContext \<Rightarrow> baseContext" where
  "BaseContext_cmykStroke E c' m y k a c =
     (let c1 = upd_text (FormattedString_cmykStroke c' m y k a) c
      in if c' = PNone then BaseContext_stroke PNone PNone PNone (PInt 1) c1
         else (case cmyk2rgb E c' m y k of
                 (r, g, b) \<Rightarrow>
                   c1\<lparr>ctx_state := (ctx_state c1)
                        \<lparr>cmykStrokeColor := Some (CMYKColor_init c' m y k a),
                         strokeColor := Some (Color_init (Color_colorSpace c1) r g b a)\<rparr>\<rparr>))"

definition BaseContext_shadow :: "pyval \<Rightarrow> pyval \<Rightarrow> pyval \<Rightarrow> baseContext \<Rightarrow> baseContext result" where
  "BaseContext_shadow offset blur col c =
     (if offset = PNone then Inr (c\<lparr>ctx_state := (ctx_state c)\<lparr>shadow := None\<rparr>\<rparr>)
      else case Shadow_init (Color_colorSpace c) offset blur col of
             Inl e \<Rightarrow> Inl (e, c)
           | Inr sh \<Rightarrow> Inr (c\<lparr>ctx_state := (ctx_state c)\<lparr>shadow := Some sh\<rparr>\<rparr>))"

text \<open>
  The gradient setters.  Without a start point the gradient is taken away and the fill
  becomes black; otherwise the gradient is built (which may fail) and the fill is taken
  away.
\<close>

definition BaseContext_linearGradient ::
  "pyval \<Rightarrow> pyval \<Rightarrow> pyval \<Rightarrow> pyval \<Rightarrow> baseContext \<Rightarrow> baseContext result" where
  "BaseContext_linearGradient startPoint endPoint colors locations c =
     (if startPoint = PNone
      then Inr (BaseContext_fill (PInt 0) PNone PNone (PInt 1)
                  (c\<lparr>ctx_state := (ctx_state c)\<lparr>gradient := None\<rparr>\<rparr>))
      else case Gradient_init (Color_colorSpace c) ''linear'' startPoint endPoint colors
                  locations PNone PNone of
             Inl e \<Rightarrow> Inl (e, c)
           | Inr g \<Rightarrow> Inr (BaseContext_fill PNone PNone PNone (PInt 1)
                             (c\<lparr>ctx_state := (ctx_state c)\<lparr>gradient := Some g\<rparr>\<rparr>)))"

definition BaseContext_radialGradient ::
  "pyval \<Rightarrow> pyval \<Rightarrow> pyval \<Rightarrow> pyval \<Rightarrow> pyval \<Rightarrow> pyval \<Rightarrow> baseContext \<Rightarrow> baseContext result" where
  "BaseContext_radialGradient startPoint endPoint colors locations startRadius endRadius c =
     (if startPoint = PNone
      then Inr (BaseContext_fill (PInt 0) PNone PNone (PInt 1)
                  (c\<lparr>ctx_state := (ctx_state c)\<lparr>gradient := None\<rparr>\<rparr>))
      else case Gradient_init (Color_colorSpace c) ''radial'' startPoint endPoint colors
                  locations startRadius endRadius of
             Inl e \<Rightarrow> Inl (e, c)
           | Inr g \<Rightarrow> Inr (BaseContext_fill PNone PNone PNone (PInt 1)
                             (c\<lparr>ctx_state := (ctx_state c)\<lparr>gradient := Some g\<rparr>\<rparr>)))"

text \<open>Stroke attributes.\<close>

definition BaseContext_strokeWidth :: "pyval \<Rightarrow> baseContext \<Rightarrow> baseContext" where
  "BaseContext_strokeWidth v c =
     (let c1 = upd_text (\<lambda>t. t\<lparr>fs_strokeWidth := v\<rparr>) c
      in c1\<lparr>ctx_state := (ctx_state c1)\<lparr>strokeWidth := v\<rparr>\<rparr>)"

definition BaseContext_miterLimit :: "pyval \<Rightarrow> baseContext \<Rightarrow> baseContext" where
  "BaseContext_miterLimit v c = c\<lparr>ctx_state := (ctx_state c)\<lparr>miterLimit := v\<rparr>\<rparr>"

definition LINEJOINSTYLESMAP :: "string \<rightharpoonup> lineJoinStyle" where
  "LINEJOINSTYLESMAP =
     [''miter'' \<mapsto> LineJoinMiter, ''round'' \<mapsto> LineJoinRound, ''bevel'' \<mapsto> LineJoinBevel]"

definition LINECAPSTYLESMAP :: "string \<rightharpoonup> lineCapStyle" where
  "LINECAPSTYLESMAP =
     [''butt'' \<mapsto> LineCapButt, ''square'' \<mapsto> LineCapSquare, ''round'' \<mapsto> LineCapRound]"

text \<open>
  Looking a value up in a dictionary keyed by strings: a string that is a key gives its
  entry, an unhashable value makes the membership test raise, anything else is not a key.
\<close>

definition lookup_key :: "(string \<rightharpoonup> 'a) \<Rightarrow> pyval \<Rightarrow> error + 'a option" where
  "lookup_key m v =
     (if \<not> hashable v then Inl (TypeError ''unhashable type'')
      else case v of PStr s \<Rightarrow> Inr (m s) | _ \<Rightarrow> Inr None)"

text \<open>
  \<open>lineJoin\<close> and \<open>lineCap\<close>: the branch for \<open>None\<close> assigns and falls through to the
  membership test.
\<close>

definition BaseContext_lineJoin :: "pyval \<Rightarrow> baseContext \<Rightarrow> baseContext result" where
  "BaseContext_lineJoin join c =
     (let c1 = (if join = PNone then c\<lparr>ctx_state := (ctx_state c)\<lparr>lineJoin := None\<rparr>\<rparr> else c)
      in case lookup_key LINEJOINSTYLESMAP join of
           Inl e \<Rightarrow> Inl (e, c1)
         | Inr None \<Rightarrow> Inl (DrawBotError ''lineJoin() argument must be bevel, miter or round'', c1)
         | Inr (Some j) \<Rightarrow> Inr (c1\<lparr>ctx_state := (ctx_state c1)\<lparr>lineJoin := Some j\<rparr>\<rparr>))"

definition BaseContext_lineCap :: "pyval \<Rightarrow> baseContext \<Rightarrow> baseContext result" where
  "BaseContext_lineCap cap c =
     (let c1 = (if cap = PNone then c\<lparr>ctx_state := (ctx_state c)\<lparr>lineCap := None\<rparr>\<rparr> else c)
      in case lookup_key LINECAPSTYLESMAP cap of
           Inl e \<Rightarrow> Inl (e, c1)
         | Inr None \<Rightarrow> Inl (DrawBotError ''lineCap() argument must be butt, square or round'', c1)
         | Inr (Some j) \<Rightarrow> Inr (c1\<lparr>ctx_state := (ctx_state c1)\<lparr>lineCap := Some j\<rparr>\<rparr>))"

text \<open>\<open>lineDash(dash, offset)\<close> reads \<open>dash[0]\<close> first.\<close>

definition BaseContext_lineDash :: "pyval \<Rightarrow> pyval \<Rightarrow> baseContext \<Rightarrow> baseContext result" where
  "BaseContext_lineDash dash offset c =
     (case py_iter dash of
        Inl e \<Rightarrow> Inl (e, c)
      | Inr [] \<Rightarrow> Inl (IndexError ''index out of range'', c)
      | Inr (d # ds) \<Rightarrow>
          if d = PNone then Inr (c\<lparr>ctx_state := (ctx_state c)\<lparr>lineDash := PNone\<rparr>\<rparr>)
          else Inr (c\<lparr>ctx_state := (ctx_state c)
                        \<lparr>lineDash := PList (d # ds), lineDashOffset := offset\<rparr>\<rparr>))"

definition BaseContext_blendMode :: "pyval \<Rightarrow> baseContext \<Rightarrow> baseContext" where
  "BaseContext_blendMode operation c = c\<lparr>ctx_state := (ctx_state c)\<lparr>blendMode := operation\<rparr>\<rparr>"

definition BaseContext_opacity :: "pyval \<Rightarrow> baseContext \<Rightarrow> baseContext" where
  "BaseContext_opacity v c = c\<lparr>ctx_state := (ctx_state c)\<lparr>opacity := v\<rparr>\<rparr>"

text \<open>\<open>transform\<close> only calls the hook; the state keeps no matrix.\<close>

definition BaseContext_transform :: "pyval \<Rightarrow> baseContext \<Rightarrow> baseContext" where
  "BaseContext_transform matrix c = c"

definition BaseContext_fontSize :: "pyval \<Rightarrow> baseContext \<Rightarrow> baseContext" where
  "BaseContext_fontSize v c = upd_text (\<lambda>t. t\<lparr>fs_fontSize := v\<rparr>) c"

definition BaseContext_lineHeight :: "pyval \<Rightarrow> baseContext \<Rightarrow> baseContext" where
  "BaseContext_lineHeight v c = upd_text (\<lambda>t. t\<lparr>fs_lineHeight := v\<rparr>) c"

definition BaseContext_hyphenation :: "pyval \<Rightarrow> baseContext \<Rightarrow> baseContext" where
  "BaseContext_hyphenation v c = c\<lparr>ctx_state := (ctx_state c)\<lparr>hyphenation := v\<rparr>\<rparr>"

section \<open>The recorder\<close>

text \<open>
  An argument of a recorded call: a plain value, a path or a formatted string.  An
  instruction is the name of the method, its positional arguments and its keywords.
\<close>

datatype arg = A pyval | APath bezierPath | AText formattedString

type_synonym instruction = "string \<times> arg list \<times> (string \<times> arg) list"

text \<open>
  The attributes of \<open>DrawBotDrawingTool\<close> that recording reads or writes; its methods
  carry the prefix \<open>Tool\<close> here.  The log,
  \<open>_instructionsStack\<close>, is a list of page groups; the last group is the current one.
\<close>

record drawBotDrawingTool =
  instructionsStack :: "instruction list list"
  dummyContext :: baseContext
  tool_width :: pyval
  tool_height :: pyval
  requiresNewFirstPage :: bool
  hasPage :: bool
  isSinglePage :: bool

text \<open>\<open>__init__\<close>, that is \<open>_reset()\<close> and \<open>_isSinglePage = False\<close>.\<close>

definition DrawBotDrawingTool_init :: drawBotDrawingTool where
  "DrawBotDrawingTool_init =
     \<lparr>instructionsStack = [], dummyContext = DummyContext_init GenericRGB,
      tool_width = PNone, tool_height = PNone, requiresNewFirstPage = False,
      hasPage = False, isSinglePage = False\<rparr>"

text \<open>\<open>newDrawing\<close>, that is \<open>_reset()\<close> on an existing tool.\<close>

definition Tool_newDrawing :: "drawBotDrawingTool \<Rightarrow> drawBotDrawingTool" where
  "Tool_newDrawing t =
     t\<lparr>instructionsStack := [],
       dummyContext := DummyContext_init (Color_colorSpace (dummyContext t)),
       tool_width := PNone, tool_height := PNone, requiresNewFirstPage := False,
       hasPage := False\<rparr>"

definition Tool_width :: "drawBotDrawingTool \<Rightarrow> pyval" where
  "Tool_width t = (if tool_width t = PNone then PInt 1000 else tool_width t)"

definition Tool_height :: "drawBotDrawingTool \<Rightarrow> pyval" where
  "Tool_height t = (if tool_height t = PNone then PInt 1000 else tool_height t)"

definition Tool_pageCount :: "drawBotDrawingTool \<Rightarrow> nat" where
  "Tool_pageCount t = length (instructionsStack t)"

text \<open>
  \<open>_addInstruction\<close>.  A \<open>newPage\<close> opens a group; a first call of any other name
  opens the first group; when a first page is required and there is none yet, the
  synthetic \<open>newPage\<close> goes to the front of the current group; then the call is appended
  to the current group.
\<close>

definition on_last :: "('a list \<Rightarrow> 'a list) \<Rightarrow> 'a list list \<Rightarrow> 'a list list" where
  "on_last f st = butlast st @ [f (last st)]"

definition Tool_addInstruction ::
  "string \<Rightarrow> arg list \<Rightarrow> (string \<times> arg) list \<Rightarrow> drawBotDrawingTool \<Rightarrow> drawBotDrawingTool" where
  "Tool_addInstruction callback args kwargs t =
     (let st1 = (if callback = ''newPage'' then instructionsStack t @ [[]]
                 else instructionsStack t);
          st2 = (if st1 = [] then st1 @ [[]] else st1);
          first = (requiresNewFirstPage t \<and> \<not> hasPage t);
          st3 = (if first
                 then on_last (\<lambda>g. (''newPage'', [A (Tool_width t), A (Tool_height t)], []) # g) st2
                 else st2)
      in t\<lparr>hasPage := (if first then True else hasPage t),
           instructionsStack := on_last (\<lambda>g. g @ [(callback, args, kwargs)]) st3\<rparr>)"

text \<open>The paper sizes: the table of the module and, for each entry, its landscape form.\<close>

definition basePaperSizes :: "(string \<times> int \<times> int) list" where
  "basePaperSizes =
     [(''Letter'', 612, 792), (''LetterSmall'', 612, 792), (''Tabloid'', 792, 1224),
      (''Ledger'', 1224, 792), (''Legal'', 612, 1008), (''Statement'', 396, 612),
      (''Executive'', 540, 720), (''A0'', 2384, 3371), (''A1'', 1685, 2384),
      (''A2'', 1190, 1684), (''A3'', 842, 1190), (''A4'', 595, 842), (''A4Small'', 595, 842),
      (''A5'', 420, 595), (''B4'', 729, 1032), (''B5'', 516, 729), (''Folio'', 612, 936),
      (''Quarto'', 610, 780), (''10x14'', 720, 1008)]"

definition paperSizes :: "string \<rightharpoonup> int \<times> int" where
  "paperSizes =
     map_of (basePaperSizes @ map (\<lambda>(key, w, h). (key @ ''Landscape'', h, w)) basePaperSizes)"

text \<open>
  The first lines of \<open>size\<close> and \<open>newPage\<close>: a paper size by name, the screen, and for
  \<open>size\<close> a single float for both dimensions.
\<close>

definition namedSize :: "env \<Rightarrow> pyval \<Rightarrow> pyval \<Rightarrow> error + pyval \<times> pyval" where
  "namedSize E w h =
     (case lookup_key paperSizes w of
        Inl e \<Rightarrow> Inl e
      | Inr r \<Rightarrow>
          (let wh1 = (case r of Some (pw, ph) \<Rightarrow> (PInt pw, PInt ph) | None \<Rightarrow> (w, h))
           in Inr (if fst wh1 = PStr ''screen'' then screenSize E else wh1)))"

definition isFloat :: "pyval \<Rightarrow> bool" where
  "isFloat v = (case v of PFloat r \<Rightarrow> True | _ \<Rightarrow> False)"

definition Tool_newPage :: "env \<Rightarrow> pyval \<Rightarrow> pyval \<Rightarrow> drawBotDrawingTool \<Rightarrow> drawBotDrawingTool result" where
  "Tool_newPage E w h t =
     (if isSinglePage t then Inl (DrawBotError ''Cannot add a newPage into a single page.'', t)
      else case namedSize E w h of
             Inl e \<Rightarrow> Inl (e, t)
           | Inr (w1, h1) \<Rightarrow>
               (let wh = (if w1 = PNone \<and> h1 = PNone then (Tool_width t, Tool_height t) else (w1, h1));
                    t1 = t\<lparr>tool_width := fst wh, tool_height := snd wh, hasPage := True,
                           dummyContext := DummyContext_init (Color_colorSpace (dummyContext t))\<rparr>
                in Inr (Tool_addInstruction ''newPage'' [A (fst wh), A (snd wh)] [] t1)))"

definition Tool_size :: "env \<Rightarrow> pyval \<Rightarrow> pyval \<Rightarrow> drawBotDrawingTool \<Rightarrow> drawBotDrawingTool result" where
  "Tool_size E w h t =
     (if isSinglePage t then Inl (DrawBotError ''Cannot set size into a single page.'', t)
      else case namedSize E w h of
             Inl e \<Rightarrow> Inl (e, t)
           | Inr (w1, h1) \<Rightarrow>
               (let wh = (if h1 = PNone \<and> isFloat w1 then (w1, w1) else (w1, h1));
                    t1 = t\<lparr>tool_width := fst wh, tool_height := snd wh\<rparr>
                in if instructionsStack t1 = [] then Tool_newPage E (fst wh) (snd wh) t1
                   else Inl (DrawBotError
                     ''Can't use size() after drawing has begun. Try to move it to the top of your script.'',
                     t1)))"

text \<open>
  \<open>pages\<close> keeps the groups in which some instruction is a \<open>newPage\<close>, in order; each
  becomes a page object around that group.
\<close>

definition Tool_pages :: "drawBotDrawingTool \<Rightarrow> instruction list list" where
  "Tool_pages t = filter (\<lambda>g. list_ex (\<lambda>i. fst i = ''newPage'') g) (instructionsStack t)"

section \<open>The public drawing calls\<close>

text \<open>
  Most public calls end in the same two statements: \<open>_requiresNewFirstPage = True\<close>
  and \<open>_addInstruction(name, ...)\<close>.
\<close>

definition record_drawing :: "string \<Rightarrow> arg list \<Rightarrow> drawBotDrawingTool \<Rightarrow> drawBotDrawingTool" where
  "record_drawing name args t = Tool_addInstruction name args [] (t\<lparr>requiresNewFirstPage := True\<rparr>)"

definition Tool_save :: "env \<Rightarrow> drawBotDrawingTool \<Rightarrow> drawBotDrawingTool result" where
  "Tool_save E t =
     (case BaseContext_save E (dummyContext t) of
        Inl (e, c) \<Rightarrow> Inl (e, t\<lparr>dummyContext := c\<rparr>)
      | Inr c \<Rightarrow> Inr (record_drawing ''save'' [] (t\<lparr>dummyContext := c\<rparr>)))"

definition Tool_restore :: "drawBotDrawingTool \<Rightarrow> drawBotDrawingTool result" where
  "Tool_restore t =
     (case BaseContext_restore (dummyContext t) of
        Inl (e, c) \<Rightarrow> Inl (e, t\<lparr>dummyContext := c\<rparr>)
      | Inr c \<Rightarrow> Inr (record_drawing ''restore'' [] (t\<lparr>dummyContext := c\<rparr>)))"

definition Tool_rect :: "pyval \<Rightarrow> pyval \<Rightarrow> pyval \<Rightarrow> pyval \<Rightarrow> drawBotDrawingTool \<Rightarrow> drawBotDrawingTool" where
  "Tool_rect x y w h t = record_drawing ''rect'' [A x, A y, A w, A h] t"

definition Tool_oval :: "pyval \<Rightarrow> pyval \<Rightarrow> pyval \<Rightarrow> pyval \<Rightarrow> drawBotDrawingTool \<Rightarrow> drawBotDrawingTool" where
  "Tool_oval x y w h t = record_drawing ''oval'' [A x, A y, A w, A h] t"

definition Tool_newPath :: "drawBotDrawingTool \<Rightarrow> drawBotDrawingTool" where
  "Tool_newPath t = record_drawing ''newPath'' [] t"

text \<open>A point is unpacked into its two coordinates and recorded as a pair again.\<close>

definition Tool_moveTo :: "pyval \<times> pyval \<Rightarrow> drawBotDrawingTool \<Rightarrow> drawBotDrawingTool" where
  "Tool_moveTo xy t = record_drawing ''moveTo'' [A (PTuple [fst xy, snd xy])] t"

definition Tool_lineTo :: "pyval \<times> pyval \<Rightarrow> drawBotDrawingTool \<Rightarrow> drawBotDrawingTool" where
  "Tool_lineTo xy t = record_drawing ''lineTo'' [A (PTuple [fst xy, snd xy])] t"

definition Tool_curveTo ::
  "pyval \<times> pyval \<Rightarrow> pyval \<times> pyval \<Rightarrow> pyval \<times> pyval \<Rightarrow> drawBotDrawingTool \<Rightarrow> drawBotDrawingTool" where
  "Tool_curveTo xy1 xy2 xy3 t =
     record_drawing ''curveTo''
       [A (PTuple [fst xy1, snd xy1]), A (PTuple [fst xy2, snd xy2]),
        A (PTuple [fst xy3, snd xy3])] t"

definition Tool_closePath :: "drawBotDrawingTool \<Rightarrow> drawBotDrawingTool" where
  "Tool_closePath t = record_drawing ''closePath'' [] t"

text \<open>\<open>drawPath\<close> records a copy of the path it is given; \<open>clipPath\<close> records the path.\<close>

definition path_arg :: "bezierPath option \<Rightarrow> arg" where
  "path_arg p = (case p of None \<Rightarrow> A PNone | Some b \<Rightarrow> APath b)"

definition Tool_drawPath :: "bezierPath option \<Rightarrow> drawBotDrawingTool \<Rightarrow> drawBotDrawingTool result" where
  "Tool_drawPath p t =
     (case copy_opt BezierPath_copy p of
        Inl e \<Rightarrow> Inl (e, t)
      | Inr p' \<Rightarrow> Inr (record_drawing ''drawPath'' [path_arg p'] t))"

definition Tool_clipPath :: "bezierPath option \<Rightarrow> drawBotDrawingTool \<Rightarrow> drawBotDrawingTool" where
  "Tool_clipPath p t = record_drawing ''clipPath'' [path_arg p] t"

definition Tool_fill :: "pyval \<Rightarrow> pyval \<Rightarrow> pyval \<Rightarrow> pyval \<Rightarrow> drawBotDrawingTool \<Rightarrow> drawBotDrawingTool" where
  "Tool_fill r g b alpha t = record_drawing ''fill'' [A r, A g, A b, A alpha] t"

definition Tool_stroke :: "pyval \<Rightarrow> pyval \<Rightarrow> pyval \<Rightarrow> pyval \<Rightarrow> drawBotDrawingTool \<Rightarrow> drawBotDrawingTool" where
  "Tool_stroke r g b alpha t = record_drawing ''stroke'' [A r, A g, A b, A alpha] t"

definition Tool_cmykFill ::
  "pyval \<Rightarrow> pyval \<Rightarrow> pyval \<Rightarrow> pyval \<Rightarrow> pyval \<Rightarrow> drawBotDrawingTool \<Rightarrow> drawBotDrawingTool" where
  "Tool_cmykFill c m y k alpha t = record_drawing ''cmykFill'' [A c, A m, A y, A k, A alpha] t"

definition Tool_cmykStroke ::
  "pyval \<Rightarrow> pyval \<Rightarrow> pyval \<Rightarrow> pyval \<Rightarrow> pyval \<Rightarrow> drawBotDrawingTool \<Rightarrow> drawBotDrawingTool" where
  "Tool_cmykStroke c m y k alpha t = record_drawing ''cmykStroke'' [A c, A m, A y, A k, A alpha] t"

definition Tool_linearGradient ::
  "pyval \<Rightarrow> pyval \<Rightarrow> pyval \<Rightarrow> pyval \<Rightarrow> drawBotDrawingTool \<Rightarrow> drawBotDrawingTool" where
  "Tool_linearGradient startPoint endPoint colors locations t =
     record_drawing ''linearGradient'' [A startPoint, A endPoint, A colors, A locations] t"

definition Tool_radialGradient ::
  "pyval \<Rightarrow> pyval \<Rightarrow> pyval \<Rightarrow> pyval \<Rightarrow> pyval \<Rightarrow> pyval \<Rightarrow> drawBotDrawingTool \<Rightarrow> drawBotDrawingTool" where
  "Tool_radialGradient startPoint endPoint colors locations startRadius endRadius t =
     record_drawing ''radialGradient''
       [A startPoint, A endPoint, A colors, A locations, A startRadius, A endRadius] t"

definition Tool_strokeWidth :: "pyval \<Rightarrow> drawBotDrawingTool \<Rightarrow> drawBotDrawingTool" where
  "Tool_strokeWidth v t = record_drawing ''strokeWidth'' [A v] t"

definition Tool_miterLimit :: "pyval \<Rightarrow> drawBotDrawingTool \<Rightarrow> drawBotDrawingTool" where
  "Tool_miterLimit v t = record_drawing ''miterLimit'' [A v] t"

definition Tool_lineJoin :: "pyval \<Rightarrow> drawBotDrawingTool \<Rightarrow> drawBotDrawingTool" where
  "Tool_lineJoin v t = record_drawing ''lineJoin'' [A v] t"

definition Tool_lineCap :: "pyval \<Rightarrow> drawBotDrawingTool \<Rightarrow> drawBotDrawingTool" where
  "Tool_lineCap v t = record_drawing ''lineCap'' [A v] t"

text \<open>
  \<open>lineDash(value, *values, offset)\<close>: the further values are kept only when the first
  is a number.
\<close>

definition isNumber :: "pyval \<Rightarrow> bool" where
  "isNumber v = (case v of PInt i \<Rightarrow> True | PFloat r \<Rightarrow> True | PBool b \<Rightarrow> True | _ \<Rightarrow> False)"

definition Tool_lineDash :: "pyval \<Rightarrow> pyval list \<Rightarrow> pyval \<Rightarrow> drawBotDrawingTool \<Rightarrow> drawBotDrawingTool" where
  "Tool_lineDash v vs offset t =
     record_drawing ''lineDash'' [A (PList (if isNumber v then v # vs else [v])), A offset] t"

definition blendModes :: "string list" where
  "blendModes =
     [''normal'', ''multiply'', ''screen'', ''overlay'', ''darken'', ''lighten'', ''colorDodge'',
      ''colorBurn'', ''softLight'', ''hardLight'', ''difference'', ''exclusion'', ''hue'',
      ''saturation'', ''color'', ''luminosity'', ''clear'', ''copy'', ''sourceIn'', ''sourceOut'',
      ''sourceAtop'', ''destinationOver'', ''destinationIn'', ''destinationOut'',
      ''destinationAtop'', ''xOR'', ''plusDarker'', ''plusLighter'']"

definition Tool_blendMode :: "pyval \<Rightarrow> drawBotDrawingTool \<Rightarrow> drawBotDrawingTool result" where
  "Tool_blendMode operation t =
     (case in_keys blendModes operation of
        Inl e \<Rightarrow> Inl (e, t)
      | Inr ok \<Rightarrow> if ok then Inr (record_drawing ''blendMode'' [A operation] t)
                  else Inl (DrawBotError ''blend mode must be one of the blend modes'', t))"

definition Tool_opacity :: "pyval \<Rightarrow> drawBotDrawingTool \<Rightarrow> drawBotDrawingTool" where
  "Tool_opacity v t = record_drawing ''opacity'' [A v] t"

definition Tool_shadow :: "pyval \<Rightarrow> pyval \<Rightarrow> pyval \<Rightarrow> drawBotDrawingTool \<Rightarrow> drawBotDrawingTool" where
  "Tool_shadow offset blur col t =
     record_drawing ''shadow''
       [A offset, A (if blur = PNone then PInt 10 else blur),
        A (if col = PNone then PTuple [PInt 0, PInt 0, PInt 0] else col)] t"

text \<open>
  \<open>transform(matrix)\<close> with the default centre, and \<open>translate\<close>, which is a transform by
  the matrix \<open>(1, 0, 0, 1, x, y)\<close>.
\<close>

definition Tool_transform :: "pyval \<Rightarrow> drawBotDrawingTool \<Rightarrow> drawBotDrawingTool" where
  "Tool_transform matrix t = Tool_addInstruction ''transform'' [A matrix] [] (t\<lparr>requiresNewFirstPage := True\<rparr>)"

definition Tool_translate :: "pyval \<Rightarrow> pyval \<Rightarrow> drawBotDrawingTool \<Rightarrow> drawBotDrawingTool" where
  "Tool_translate x y t = Tool_transform (PTuple [PInt 1, PInt 0, PInt 0, PInt 1, x, y]) t"

definition Tool_frameDuration :: "pyval \<Rightarrow> drawBotDrawingTool \<Rightarrow> drawBotDrawingTool" where
  "Tool_frameDuration seconds t = record_drawing ''frameDuration'' [A seconds] t"

text \<open>
  The text settings go through the validation context first and are then recorded; they
  do not ask for a first page.
\<close>

definition Tool_fontSize :: "pyval \<Rightarrow> drawBotDrawingTool \<Rightarrow> drawBotDrawingTool" where
  "Tool_fontSize v t =
     Tool_addInstruction ''fontSize'' [A v] []
       (t\<lparr>dummyContext := BaseContext_fontSize v (dummyContext t)\<rparr>)"

definition Tool_lineHeight :: "pyval \<Rightarrow> drawBotDrawingTool \<Rightarrow> drawBotDrawingTool" where
  "Tool_lineHeight v t =
     Tool_addInstruction ''lineHeight'' [A v] []
       (t\<lparr>dummyContext := BaseContext_lineHeight v (dummyContext t)\<rparr>)"

section \<open>Scripts\<close>

text \<open>
  A script is a sequence of public calls on one tool.  \<open>step\<close> performs one call.
\<close>

datatype call =
    Size pyval pyval
  | NewPage pyval pyval
  | Save
  | Restore
  | Rect pyval pyval pyval pyval
  | Oval pyval pyval pyval pyval
  | NewPath
  | MoveTo "pyval \<times> pyval"
  | LineTo "pyval \<times> pyval"
  | CurveTo "pyval \<times> pyval" "pyval \<times> pyval" "pyval \<times> pyval"
  | ClosePath
  | DrawPath "bezierPath option"
  | ClipPath "bezierPath option"
  | Fill pyval pyval pyval pyval
  | Stroke pyval pyval pyval pyval
  | CmykFill pyval pyval pyval pyval pyval
  | CmykStroke pyval pyval pyval pyval pyval
  | LinearGradient pyval pyval pyval pyval
  | RadialGradient pyval pyval pyval pyval pyval pyval
  | StrokeWidth pyval
  | MiterLimit pyval
  | LineJoin pyval
  | LineCap pyval
  | LineDash pyval "pyval list" pyval
  | BlendMode pyval
  | Opacity pyval
  | Shadow pyval pyval pyval
  | Transform pyval
  | Translate pyval pyval
  | FrameDuration pyval
  | FontSize pyval
  | LineHeight pyval

fun step :: "env \<Rightarrow> call \<Rightarrow> drawBotDrawingTool \<Rightarrow> drawBotDrawingTool result" where
  "step E (Size w h) t = Tool_size E w h t"
| "step E (NewPage w h) t = Tool_newPage E w h t"
| "step E Save t = Tool_save E t"
| "step E Restore t = Tool_restore t"
| "step E (Rect x y w h) t = Inr (Tool_rect x y w h t)"
| "step E (Oval x y w h) t = Inr (Tool_oval x y w h t)"
| "step E NewPath t = Inr (Tool_newPath t)"
| "step E (MoveTo xy) t = Inr (Tool_moveTo xy t)"
| "step E (LineTo xy) t = Inr (Tool_lineTo xy t)"
| "step E (CurveTo xy1 xy2 xy3) t = Inr (Tool_curveTo xy1 xy2 xy3 t)"
| "step E ClosePath t = Inr (Tool_closePath t)"
| "step E (DrawPath p) t = Tool_drawPath p t"
| "step E (ClipPath p) t = Inr (Tool_clipPath p t)"
| "step E (Fill r g b a) t = Inr (Tool_fill r g b a t)"
| "step E (Stroke r g b a) t = Inr (Tool_stroke r g b a t)"
| "step E (CmykFill c m y k a) t = Inr (Tool_cmykFill c m y k a t)"
| "step E (CmykStroke c m y k a) t = Inr (Tool_cmykStroke c m y k a t)"
| "step E (LinearGradient sp ep cols locs) t = Inr (Tool_linearGradient sp ep cols locs t)"
| "step E (RadialGradient sp ep cols locs sr er) t =
     Inr (Tool_radialGradient sp ep cols locs sr er t)"
| "step E (StrokeWidth v) t = Inr (Tool_strokeWidth v t)"
| "step E (MiterLimit v) t = Inr (Tool_miterLimit v t)"
| "step E (LineJoin v) t = Inr (Tool_lineJoin v t)"
| "step E (LineCap v) t = Inr (Tool_lineCap v t)"
| "step E (LineDash v vs offset) t = Inr (Tool_lineDash v vs offset t)"
| "step E (BlendMode v) t = Tool_blendMode v t"
| "step E (Opacity v) t = Inr (Tool_opacity v t)"
| "step E (Shadow offset blur col) t = Inr (Tool_shadow offset blur col t)"
| "step E (Transform m) t = Inr (Tool_transform m t)"
| "step E (Translate x y) t = Inr (Tool_translate x y t)"
| "step E (FrameDuration v) t = Inr (Tool_frameDuration v t)"
| "step E (FontSize v) t = Inr (Tool_fontSize v t)"
| "step E (LineHeight v) t = Inr (Tool_lineHeight v t)"

text \<open>
  A script that stops at the first exception, and a script that catches every exception
  and goes on with the next call.
\<close>

definition run :: "env \<Rightarrow> call list \<Rightarrow> drawBotDrawingTool \<Rightarrow> drawBotDrawingTool result" where
  "run E cs t = foldR (step E) cs t"

definition runAll :: "env \<Rightarrow> call list \<Rightarrow> drawBotDrawingTool \<Rightarrow> drawBotDrawingTool" where
  "runAll E cs t = foldl (\<lambda>t c. after (step E c t)) t cs"

text \<open>The calls that open a page themselves, and the calls that ask for a first page.\<close>

fun makesPage :: "call \<Rightarrow> bool" where
  "makesPage (Size w h) = True"
| "makesPage (NewPage w h) = True"
| "makesPage c = False"

fun needsPage :: "call \<Rightarrow> bool" where
  "needsPage (Size w h) = False"
| "needsPage (NewPage w h) = False"
| "needsPage (FontSize v) = False"
| "needsPage (LineHeight v) = False"
| "needsPage c = True"

section \<open>Replay\<close>



text \<open>
  The methods of \<open>BaseContext\<close> by name, for the instructions the calls above record.
  A wrong number of arguments is a \<open>TypeError\<close>; a method of the class that is not
  part of this model is reported as such.
\<close>

definition plain :: "arg list \<Rightarrow> pyval list option" where
  "plain args =
     (if list_all (\<lambda>a. case a of A v \<Rightarrow> True | _ \<Rightarrow> False) args
      then Some (map (\<lambda>a. case a of A v \<Rightarrow> v | _ \<Rightarrow> PNone) args) else None)"

definition path_of :: "arg list \<Rightarrow> (bezierPath option) option" where
  "path_of args =
     (case args of
        [A PNone] \<Rightarrow> Some None
      | [APath p] \<Rightarrow> Some (Some p)
      | _ \<Rightarrow> None)"

definition BaseContext_call :: "env \<Rightarrow> instruction \<Rightarrow> baseContext \<Rightarrow> baseContext result" where
  "BaseContext_call E i c =
     (let name = fst i; args = fst (snd i); kwargs = snd (snd i);
          wrong = Inl (TypeError ''arguments'', c)
      in if kwargs \<noteq> [] then Inl (NotModelled name, c)
      else if name = ''drawPath'' then
        (case path_of args of Some p \<Rightarrow> Inr (BaseContext_drawPath p c)
                            | None \<Rightarrow> Inl (NotModelled name, c))
      else if name = ''clipPath'' then
        (case path_of args of Some p \<Rightarrow> Inr (BaseContext_clipPath p c)
                            | None \<Rightarrow> Inl (NotModelled name, c))
      else case plain args of
        None \<Rightarrow> Inl (NotModelled name, c)
      | Some xs \<Rightarrow>
         (if name = ''newPage'' then
            (if 2 < length xs then wrong
             else BaseContext_newPage (arg_or xs 0 PNone) (arg_or xs 1 PNone) c)
          else if name = ''save'' then (if xs = [] then BaseContext_save E c else wrong)
          else if name = ''restore'' then (if xs = [] then BaseContext_restore c else wrong)
          else if name = ''rect'' then
            (if length xs = 4 then Inr (BaseContext_rect (xs ! 0) (xs ! 1) (xs ! 2) (xs ! 3) c)
             else wrong)
          else if name = ''oval'' then
            (if length xs = 4 then Inr (BaseContext_oval (xs ! 0) (xs ! 1) (xs ! 2) (xs ! 3) c)
             else wrong)
          else if name = ''newPath'' then (if xs = [] then Inr (BaseContext_newPath c) else wrong)
          else if name = ''moveTo'' then
            (if length xs = 1 then BaseContext_moveTo (xs ! 0) c else wrong)
          else if name = ''lineTo'' then
            (if length xs = 1 then BaseContext_lineTo (xs ! 0) c else wrong)
          else if name = ''curveTo'' then
            (if length xs = 3 then BaseContext_curveTo (xs ! 0) (xs ! 1) (xs ! 2) c else wrong)
          else if name = ''closePath'' then (if xs = [] then BaseContext_closePath c else wrong)
          else if name = ''fill'' then
            (if xs = [] \<or> 4 < length xs then wrong
             else Inr (BaseContext_fill (xs ! 0) (arg_or xs 1 PNone) (arg_or xs 2 PNone)
                         (arg_or xs 3 (PInt 1)) c))
          else if name = ''stroke'' then
            (if xs = [] \<or> 4 < length xs then wrong
             else Inr (BaseContext_stroke (xs ! 0) (arg_or xs 1 PNone) (arg_or xs 2 PNone)
                         (arg_or xs 3 (PInt 1)) c))
          else if name = ''cmykFill'' then
            (if length xs < 4 \<or> 5 < length xs then wrong
             else Inr (BaseContext_cmykFill E (xs ! 0) (xs ! 1) (xs ! 2) (xs ! 3)
                         (arg_or xs 4 (PInt 1)) c))
          else if name = ''cmykStroke'' then
            (if length xs < 4 \<or> 5 < length xs then wrong
             else Inr (BaseContext_cmykStroke E (xs ! 0) (xs ! 1) (xs ! 2) (xs ! 3)
                         (arg_or xs 4 (PInt 1)) c))
          else if name = ''linearGradient'' then
            (if 4 < length xs then wrong
             else BaseContext_linearGradient (arg_or xs 0 PNone) (arg_or xs 1 PNone)
                    (arg_or xs 2 PNone) (arg_or xs 3 PNone) c)
          else if name = ''radialGradient'' then
            (if 6 < length xs then wrong
             else BaseContext_radialGradient (arg_or xs 0 PNone) (arg_or xs 1 PNone)
                    (arg_or xs 2 PNone) (arg_or xs 3 PNone) (arg_or xs 4 (PInt 0))
                    (arg_or xs 5 (PInt 100)) c)
          else if name = ''strokeWidth'' then
            (if length xs = 1 then Inr (BaseContext_strokeWidth (xs ! 0) c) else wrong)
          else if name = ''miterLimit'' then
            (if length xs = 1 then Inr (BaseContext_miterLimit (xs ! 0) c) else wrong)
          else if name = ''lineJoin'' then
            (if length xs = 1 then BaseContext_lineJoin (xs ! 0) c else wrong)
          else if name = ''lineCap'' then
            (if length xs = 1 then BaseContext_lineCap (xs ! 0) c else wrong)
          else if name = ''lineDash'' then
            (if length xs = 2 then BaseContext_lineDash (xs ! 0) (xs ! 1) c else wrong)
          else if name = ''blendMode'' then
            (if length xs = 1 then Inr (BaseContext_blendMode (xs ! 0) c) else wrong)
          else if name = ''opacity'' then
            (if length xs = 1 then Inr (BaseContext_opacity (xs ! 0) c) else wrong)
          else if name = ''shadow'' then
            (if length xs = 3 then BaseContext_shadow (xs ! 0) (xs ! 1) (xs ! 2) c else wrong)
          else if name = ''transform'' then
            (if length xs = 1 then Inr (BaseContext_transform (xs ! 0) c) else wrong)
          else if name = ''frameDuration'' then (if length xs = 1 then Inr c else wrong)
          else if name = ''fontSize'' then
            (if length xs = 1 then Inr (BaseContext_fontSize (xs ! 0) c) else wrong)
          else if name = ''lineHeight'' then
            (if length xs = 1 then Inr (BaseContext_lineHeight (xs ! 0) c) else wrong)
          else Inl (NotModelled name, c)))"

text \<open>
  An environment for evaluating examples: every font is found, the screen is 1440 by 900,
  and \<open>cmyk2rgb\<close> stands in for the helper of that name with \<open>1 - min(1, x + k)\<close> on
  floats.
\<close>

definition sample_cmyk2rgb :: "pyval \<Rightarrow> pyval \<Rightarrow> pyval \<Rightarrow> pyval \<Rightarrow> pyval \<times> pyval \<times> pyval" where
  "sample_cmyk2rgb c m y k =
     (let num = (\<lambda>v. case v of PFloat r \<Rightarrow> r | PInt i \<Rightarrow> real_of_int i | _ \<Rightarrow> 0);
          f = (\<lambda>x. PFloat (1 - min 1 (num x + num k)))
      in (f c, f m, f y))"

definition sampleEnv :: env where
  "sampleEnv = \<lparr>findFont = (\<lambda>n s k. Inr True), cmyk2rgb = sample_cmyk2rgb,
                 screenSize = (PFloat 1440, PFloat 900)\<rparr>"

section \<open>Nested save and restore\<close>

text \<open>
  A sequence of calls on a context in which every \<open>save\<close> has its \<open>restore\<close>: a call
  other than these two, or a \<open>save\<close>, a sequence of the same kind, and a \<open>restore\<close>.
  The first exception ends the sequence.
\<close>

datatype block = Call instruction | Saved "block list"

fun exec :: "env \<Rightarrow> block \<Rightarrow> baseContext \<Rightarrow> baseContext result"
  and execs :: "env \<Rightarrow> block list \<Rightarrow> baseContext \<Rightarrow> baseContext result" where
  "exec E (Call i) c = BaseContext_call E i c"
| "exec E (Saved body) c =
     (case BaseContext_save E c of
        Inl x \<Rightarrow> Inl x
      | Inr c1 \<Rightarrow> (case execs E body c1 of Inl x \<Rightarrow> Inl x | Inr c2 \<Rightarrow> BaseContext_restore c2))"
| "execs E [] c = Inr c"
| "execs E (b # bs) c = (case exec E b c of Inl x \<Rightarrow> Inl x | Inr c' \<Rightarrow> execs E bs c')"

fun plainBlock :: "block \<Rightarrow> bool" and plainBlocks :: "block list \<Rightarrow> bool" where
  "plainBlock (Call i) = (fst i \<noteq> ''save'' \<and> fst i \<noteq> ''restore'')"
| "plainBlock (Saved body) = plainBlocks body"
| "plainBlocks [] = True"
| "plainBlocks (b # bs) = (plainBlock b \<and> plainBlocks bs)"

section \<open>Notions used in the statements\<close>

text \<open>A group that begins with a \<open>newPage\<close>, and a log in which a \<open>newPage\<close> occurs in a
  group only if the group begins with one.\<close>

definition firstIsNewPage :: "instruction list \<Rightarrow> bool" where
  "firstIsNewPage g = (case g of [] \<Rightarrow> False | i # rest \<Rightarrow> fst i = ''newPage'')"

definition heads_ok :: "instruction list list \<Rightarrow> bool" where
  "heads_ok st = list_all (\<lambda>g. list_ex (\<lambda>i. fst i = ''newPage'') g = firstIsNewPage g) st"



text \<open>The synthetic first page of a tool: a \<open>newPage\<close> with its current width and height.\<close>

definition firstPage :: "drawBotDrawingTool \<Rightarrow> instruction" where
  "firstPage t = (''newPage'', [A (Tool_width t), A (Tool_height t)], [])"


text \<open>A new context on which \<open>cmykFill(0, 0, 0, 1)\<close> has been called.\<close>

definition blackCMYK :: baseContext where
  "blackCMYK = BaseContext_cmykFill sampleEnv (PInt 0) (PInt 0) (PInt 0) (PInt 1) (PInt 1)
                 (BaseContext_init GenericRGB)"



section \<open>The graphics state stack\<close>

text \<open>
  C9.  \<open>lineJoin(None)\<close> and \<open>lineCap(None)\<close> on a context always raise a
  \<open>DrawBotError\<close>, and they do so after the field of the current state has been set to
  \<open>None\<close>: the state left behind is the old one with that field cleared.
\<close>

theorem lineJoin_lineCap_None_raise_after_assignment:
  "BaseContext_lineJoin PNone c =
     Inl (DrawBotError ''lineJoin() argument must be bevel, miter or round'',
          c\<lparr>ctx_state := (ctx_state c)\<lparr>lineJoin := None\<rparr>\<rparr>)
   \<and> BaseContext_lineCap PNone c =
     Inl (DrawBotError ''lineCap() argument must be butt, square or round'',
          c\<lparr>ctx_state := (ctx_state c)\<lparr>lineCap := None\<rparr>\<rparr>)"
  by (simp add: BaseContext_lineJoin_def BaseContext_lineCap_def lookup_key_def)

text \<open>
  C2.  \<open>restore\<close> with no saved state raises the unbalanced-restore error and changes
  nothing: on a context the context is left as it was, and on the tool the validation
  context, the flags and the log are left as they were, nothing being recorded.
\<close>

theorem restore_on_empty_stack:
  "(ctx_stack c = [] \<longrightarrow>
      BaseContext_restore c =
        Inl (DrawBotError ''can't restore graphics state: no matching save()'', c))
   \<and> (ctx_stack (dummyContext t) = [] \<longrightarrow>
      Tool_restore t =
        Inl (DrawBotError ''can't restore graphics state: no matching save()'', t))"
  by (simp add: BaseContext_restore_def Tool_restore_def)

theorem restore_on_empty_stack_witness:
  "ctx_stack (BaseContext_init GenericRGB) = []
   \<and> ctx_stack (dummyContext DrawBotDrawingTool_init) = []
   \<and> BaseContext_restore (BaseContext_init GenericRGB) =
        Inl (DrawBotError ''can't restore graphics state: no matching save()'',
             BaseContext_init GenericRGB)
   \<and> Tool_restore DrawBotDrawingTool_init =
        Inl (DrawBotError ''can't restore graphics state: no matching save()'',
             DrawBotDrawingTool_init)"
  using restore_on_empty_stack [of "BaseContext_init GenericRGB" DrawBotDrawingTool_init]
  by (simp add: BaseContext_init_def DrawBotDrawingTool_init_def)

lemma linearGradient_returns:
  "BaseContext_linearGradient sp ep cols locs c = Inr c' \<Longrightarrow>
     (if sp = PNone
      then fillColor (ctx_state c') \<noteq> None \<and> gradient (ctx_state c') = None
      else fillColor (ctx_state c') = None \<and> cmykFillColor (ctx_state c') = None
           \<and> gradient (ctx_state c') \<noteq> None)"
  by (auto simp add: BaseContext_linearGradient_def BaseContext_fill_def upd_text_def Let_def
      split: if_splits sum.splits)

lemma radialGradient_returns:
  "BaseContext_radialGradient sp ep cols locs sr er c = Inr c' \<Longrightarrow>
     (if sp = PNone
      then fillColor (ctx_state c') \<noteq> None \<and> gradient (ctx_state c') = None
      else fillColor (ctx_state c') = None \<and> cmykFillColor (ctx_state c') = None
           \<and> gradient (ctx_state c') \<noteq> None)"
  by (auto simp add: BaseContext_radialGradient_def BaseContext_fill_def upd_text_def Let_def
      split: if_splits sum.splits)

lemma linearGradient_raises:
  "BaseContext_linearGradient sp ep cols locs c = Inl (e, c') \<Longrightarrow> c' = c"
  by (auto simp add: BaseContext_linearGradient_def split: if_splits sum.splits)

lemma radialGradient_raises:
  "BaseContext_radialGradient sp ep cols locs sr er c = Inl (e, c') \<Longrightarrow> c' = c"
  by (auto simp add: BaseContext_radialGradient_def split: if_splits sum.splits)

lemma fill_sets_plain_fill:
  "r \<noteq> PNone \<Longrightarrow>
     cmykFillColor (ctx_state (BaseContext_fill r g b a c)) = None
     \<and> gradient (ctx_state (BaseContext_fill r g b a c)) = None
     \<and> fillColor (ctx_state (BaseContext_fill r g b a c)) \<noteq> None"
  by (simp add: BaseContext_fill_def upd_text_def Let_def)

text \<open>
  C4, as amended.  The RGB fill setter with a colour that is not \<open>None\<close> clears the CMYK
  fill and the gradient and sets the plain fill.  A gradient setter that is given a start
  point and returns clears the plain fill and the CMYK fill and sets the gradient; given
  no start point it takes the gradient away and sets the plain fill.  So after each of these
  calls that returns, exactly one of plain fill and gradient is set.  A gradient setter that
  raises leaves the context as it was.  After a gradient and then \<open>fill(1, 0, 0)\<close> the
  plain fill is set and the gradient is not.
\<close>

theorem fill_gradient_exclusive:
  "(r \<noteq> PNone \<longrightarrow>
      cmykFillColor (ctx_state (BaseContext_fill r g b a c)) = None
      \<and> gradient (ctx_state (BaseContext_fill r g b a c)) = None
      \<and> fillColor (ctx_state (BaseContext_fill r g b a c)) \<noteq> None)
   \<and> (\<forall>c'. BaseContext_linearGradient sp ep cols locs c = Inr c' \<longrightarrow>
        (if sp = PNone
         then fillColor (ctx_state c') \<noteq> None \<and> gradient (ctx_state c') = None
         else fillColor (ctx_state c') = None \<and> cmykFillColor (ctx_state c') = None
              \<and> gradient (ctx_state c') \<noteq> None)
        \<and> fillColor (ctx_state (BaseContext_fill (PInt 1) (PInt 0) (PInt 0) (PInt 1) c')) \<noteq> None
        \<and> gradient (ctx_state (BaseContext_fill (PInt 1) (PInt 0) (PInt 0) (PInt 1) c')) = None)
   \<and> (\<forall>c'. BaseContext_radialGradient sp ep cols locs sr er c = Inr c' \<longrightarrow>
        (if sp = PNone
         then fillColor (ctx_state c') \<noteq> None \<and> gradient (ctx_state c') = None
         else fillColor (ctx_state c') = None \<and> cmykFillColor (ctx_state c') = None
              \<and> gradient (ctx_state c') \<noteq> None))
   \<and> (\<forall>e c'. BaseContext_linearGradient sp ep cols locs c = Inl (e, c') \<longrightarrow> c' = c)
   \<and> (\<forall>e c'. BaseContext_radialGradient sp ep cols locs sr er c = Inl (e, c') \<longrightarrow> c' = c)"
proof -
  have plain: "\<And>c'. fillColor (ctx_state (BaseContext_fill (PInt 1) (PInt 0) (PInt 0) (PInt 1) c')) \<noteq> None
      \<and> gradient (ctx_state (BaseContext_fill (PInt 1) (PInt 0) (PInt 0) (PInt 1) c')) = None"
    using fill_sets_plain_fill [of "PInt 1"] by simp
  show ?thesis
    using fill_sets_plain_fill [of r g b a c] plain
      linearGradient_returns [of sp ep cols locs c]
      radialGradient_returns [of sp ep cols locs sr er c]
      linearGradient_raises [of sp ep cols locs c]
      radialGradient_raises [of sp ep cols locs sr er c]
    by blast
qed

text \<open>
  The claim as stated fails for a gradient setter called without a start point: on a new
  context \<open>linearGradient()\<close> returns and the plain fill is set afterwards.
\<close>

theorem gradient_setter_without_start_keeps_fill:
  "raised (BaseContext_linearGradient PNone PNone PNone PNone (BaseContext_init GenericRGB)) = None
   \<and> fillColor (ctx_state (after
        (BaseContext_linearGradient PNone PNone PNone PNone (BaseContext_init GenericRGB)))) \<noteq> None"
  by (simp add: BaseContext_linearGradient_def BaseContext_fill_def upd_text_def Let_def
      raised_def after_def)

theorem fill_gradient_exclusive_witness:
  "raised (BaseContext_linearGradient (PTuple [PInt 0, PInt 0]) (PTuple [PInt 100, PInt 100])
            (PList [PTuple [PInt 1, PInt 0, PInt 0], PTuple [PInt 0, PInt 0, PInt 1]]) PNone
            (BaseContext_init GenericRGB)) = None
   \<and> fillColor (ctx_state (after (BaseContext_linearGradient (PTuple [PInt 0, PInt 0])
            (PTuple [PInt 100, PInt 100])
            (PList [PTuple [PInt 1, PInt 0, PInt 0], PTuple [PInt 0, PInt 0, PInt 1]]) PNone
            (BaseContext_init GenericRGB)))) = None
   \<and> gradient (ctx_state (after (BaseContext_linearGradient (PTuple [PInt 0, PInt 0])
            (PTuple [PInt 100, PInt 100])
            (PList [PTuple [PInt 1, PInt 0, PInt 0], PTuple [PInt 0, PInt 0, PInt 1]]) PNone
            (BaseContext_init GenericRGB)))) \<noteq> None
   \<and> fillColor (ctx_state (BaseContext_fill (PInt 1) (PInt 0) (PInt 0) (PInt 1)
          (after (BaseContext_linearGradient (PTuple [PInt 0, PInt 0])
            (PTuple [PInt 100, PInt 100])
            (PList [PTuple [PInt 1, PInt 0, PInt 0], PTuple [PInt 0, PInt 0, PInt 1]]) PNone
            (BaseContext_init GenericRGB))))) \<noteq> None
   \<and> gradient (ctx_state (BaseContext_fill (PInt 1) (PInt 0) (PInt 0) (PInt 1)
          (after (BaseContext_linearGradient (PTuple [PInt 0, PInt 0])
            (PTuple [PInt 100, PInt 100])
            (PList [PTuple [PInt 1, PInt 0, PInt 0], PTuple [PInt 0, PInt 0, PInt 1]]) PNone
            (BaseContext_init GenericRGB))))) = None"
proof -
  have "\<exists>c'. BaseContext_linearGradient (PTuple [PInt 0, PInt 0]) (PTuple [PInt 100, PInt 100])
            (PList [PTuple [PInt 1, PInt 0, PInt 0], PTuple [PInt 0, PInt 0, PInt 1]]) PNone
            (BaseContext_init GenericRGB) = Inr c'"
    by (simp add: BaseContext_linearGradient_def Gradient_init_def bindE_def
        Color_getColorsFromList_def Color_getColor_def Color_star_def BaseContext_init_def)
  then obtain c' where c':
    "BaseContext_linearGradient (PTuple [PInt 0, PInt 0]) (PTuple [PInt 100, PInt 100])
       (PList [PTuple [PInt 1, PInt 0, PInt 0], PTuple [PInt 0, PInt 0, PInt 1]]) PNone
       (BaseContext_init GenericRGB) = Inr c'"
    by blast
  show ?thesis
    using fill_gradient_exclusive [of "PInt 1" "PInt 0" "PInt 0" "PInt 1"
        "BaseContext_init GenericRGB" "PTuple [PInt 0, PInt 0]" "PTuple [PInt 100, PInt 100]"
        "PList [PTuple [PInt 1, PInt 0, PInt 0], PTuple [PInt 0, PInt 0, PInt 1]]" PNone] c'
    by (simp add: raised_def after_def)
qed

text \<open>
  C7, as amended.  For each role the CMYK colour is set only together with the RGB colour.
  \<open>fill\<close> and \<open>stroke\<close> always clear the CMYK colour of their role and set the RGB
  colour exactly when their first argument is not \<open>None\<close>; \<open>cmykFill\<close> and
  \<open>cmykStroke\<close> set both the CMYK colour and the RGB colour (the conversion of the CMYK
  values) when their first argument is not \<open>None\<close>, and clear both otherwise.
\<close>

theorem cmyk_color_comes_with_rgb:
  "cmykFillColor (ctx_state (BaseContext_fill r g b a c)) = None
   \<and> (fillColor (ctx_state (BaseContext_fill r g b a c)) = None) = (r = PNone)
   \<and> cmykStrokeColor (ctx_state (BaseContext_stroke r g b a c)) = None
   \<and> (strokeColor (ctx_state (BaseContext_stroke r g b a c)) = None) = (r = PNone)
   \<and> (cmykFillColor (ctx_state (BaseContext_cmykFill E cy m y k a c)) = None) = (cy = PNone)
   \<and> (fillColor (ctx_state (BaseContext_cmykFill E cy m y k a c)) = None) = (cy = PNone)
   \<and> (cmykStrokeColor (ctx_state (BaseContext_cmykStroke E cy m y k a c)) = None) = (cy = PNone)
   \<and> (strokeColor (ctx_state (BaseContext_cmykStroke E cy m y k a c)) = None) = (cy = PNone)"
  by (simp add: BaseContext_fill_def BaseContext_stroke_def BaseContext_cmykFill_def
      BaseContext_cmykStroke_def upd_text_def Let_def split: prod.splits)

theorem cmyk_color_comes_with_rgb_witness:
  "cmykFillColor (ctx_state (BaseContext_fill (PInt 1) (PInt 0) (PInt 0) (PInt 1)
      (BaseContext_cmykFill sampleEnv (PInt 0) (PInt 0) (PInt 0) (PInt 1) (PInt 1)
         (BaseContext_init GenericRGB)))) = None
   \<and> fillColor (ctx_state (BaseContext_fill (PInt 1) (PInt 0) (PInt 0) (PInt 1)
      (BaseContext_cmykFill sampleEnv (PInt 0) (PInt 0) (PInt 0) (PInt 1) (PInt 1)
         (BaseContext_init GenericRGB)))) \<noteq> None"
  using cmyk_color_comes_with_rgb [of "PInt 1" "PInt 0" "PInt 0" "PInt 1"
      "BaseContext_cmykFill sampleEnv (PInt 0) (PInt 0) (PInt 0) (PInt 1) (PInt 1)
         (BaseContext_init GenericRGB)"]
  by simp

text \<open>
  The claim as stated fails: after \<open>cmykFill(0, 0, 0, 1)\<close> on a new context the CMYK
  fill and the RGB fill are both set.
\<close>

theorem cmykFill_sets_rgb_fill_too:
  "cmykFillColor (ctx_state (BaseContext_cmykFill sampleEnv (PInt 0) (PInt 0) (PInt 0) (PInt 1)
      (PInt 1) (BaseContext_init GenericRGB))) \<noteq> None
   \<and> fillColor (ctx_state (BaseContext_cmykFill sampleEnv (PInt 0) (PInt 0) (PInt 0) (PInt 1)
      (PInt 1) (BaseContext_init GenericRGB))) \<noteq> None"
  by (simp add: BaseContext_cmykFill_def upd_text_def Let_def split: prod.splits)

section \<open>The recorder: pages\<close>

lemma addInstruction_newPage_count:
  "Tool_pageCount (Tool_addInstruction ''newPage'' args kw t) = Tool_pageCount t + 1"
  by (simp add: Tool_pageCount_def Tool_addInstruction_def on_last_def Let_def)

lemma newPage_count:
  assumes a: "Tool_newPage E w h t = Inr t'"
  shows "Tool_pageCount t' = Tool_pageCount t + 1
     \<and> instructionsStack t' =
         instructionsStack t @ [[(''newPage'', [A (tool_width t'), A (tool_height t')], [])]]"
proof -
  from a obtain w1 h1 where n: "namedSize E w h = Inr (w1, h1)" and s: "\<not> isSinglePage t"
    by (auto simp add: Tool_newPage_def split: if_splits sum.splits)
  define wh where
    "wh = (if w1 = PNone \<and> h1 = PNone then (Tool_width t, Tool_height t) else (w1, h1))"
  have t': "t' = Tool_addInstruction ''newPage'' [A (fst wh), A (snd wh)] []
             (t\<lparr>tool_width := fst wh, tool_height := snd wh, hasPage := True,
                dummyContext := DummyContext_init (Color_colorSpace (dummyContext t))\<rparr>)"
    using a n s by (simp add: Tool_newPage_def Let_def wh_def)
  show ?thesis
    unfolding t' by (simp add: Tool_pageCount_def Tool_addInstruction_def on_last_def Let_def)
qed

lemma rect_newPage_oval:
  "raised (run E [Rect x y w h, NewPage (PInt pw) (PInt ph), Oval x' y' w' h']
             DrawBotDrawingTool_init) = None
   \<and> instructionsStack (after (run E [Rect x y w h, NewPage (PInt pw) (PInt ph), Oval x' y' w' h']
             DrawBotDrawingTool_init)) =
       [[(''newPage'', [A (PInt 1000), A (PInt 1000)], []), (''rect'', [A x, A y, A w, A h], [])],
        [(''newPage'', [A (PInt pw), A (PInt ph)], []), (''oval'', [A x', A y', A w', A h'], [])]]"
  by (simp add: run_def Tool_rect_def Tool_oval_def record_drawing_def Tool_newPage_def
      Tool_addInstruction_def on_last_def Let_def DrawBotDrawingTool_init_def namedSize_def
      lookup_key_def Tool_width_def Tool_height_def raised_def after_def)

text \<open>
  C5.  Recording a \<open>newPage\<close> always opens a new group, whatever the current group
  holds: the number of groups grows by one, and after the public \<open>newPage\<close> the new group
  holds that \<open>newPage\<close> alone.  \<open>pageCount\<close> is the number of groups.  After
  \<open>rect; newPage(w, h); oval\<close> on a new tool there are two groups, the first with the
  synthetic page and the rectangle, the second with the new page and the oval.
\<close>

theorem newPage_starts_a_group:
  "Tool_pageCount (Tool_addInstruction ''newPage'' args kw t) = Tool_pageCount t + 1
   \<and> Tool_pageCount t = length (instructionsStack t)
   \<and> (\<forall>t'. Tool_newPage E w h t = Inr t' \<longrightarrow>
        Tool_pageCount t' = Tool_pageCount t + 1
        \<and> instructionsStack t' =
            instructionsStack t @ [[(''newPage'', [A (tool_width t'), A (tool_height t')], [])]])
   \<and> raised (run E [Rect x y rw rh, NewPage (PInt pw) (PInt ph), Oval x' y' ow oh]
               DrawBotDrawingTool_init) = None
   \<and> Tool_pageCount (after (run E [Rect x y rw rh, NewPage (PInt pw) (PInt ph), Oval x' y' ow oh]
               DrawBotDrawingTool_init)) = 2
   \<and> instructionsStack (after (run E [Rect x y rw rh, NewPage (PInt pw) (PInt ph), Oval x' y' ow oh]
               DrawBotDrawingTool_init)) =
       [[(''newPage'', [A (PInt 1000), A (PInt 1000)], []), (''rect'', [A x, A y, A rw, A rh], [])],
        [(''newPage'', [A (PInt pw), A (PInt ph)], []), (''oval'', [A x', A y', A ow, A oh], [])]]"
proof -
  have new: "\<forall>t'. Tool_newPage E w h t = Inr t' \<longrightarrow>
        Tool_pageCount t' = Tool_pageCount t + 1
        \<and> instructionsStack t' =
            instructionsStack t @ [[(''newPage'', [A (tool_width t'), A (tool_height t')], [])]]"
    using newPage_count [of E w h t] by blast
  have two: "Tool_pageCount (after (run E [Rect x y rw rh, NewPage (PInt pw) (PInt ph), Oval x' y' ow oh]
               DrawBotDrawingTool_init)) = 2"
    using rect_newPage_oval [of E x y rw rh pw ph x' y' ow oh] by (simp add: Tool_pageCount_def)
  have count: "Tool_pageCount t = length (instructionsStack t)"
    by (simp add: Tool_pageCount_def)
  show ?thesis
    using addInstruction_newPage_count [of args kw t] count new two
      rect_newPage_oval [of E x y rw rh pw ph x' y' ow oh]
    by blast
qed

theorem newPage_starts_a_group_witness:
  "Tool_newPage sampleEnv (PInt 200) (PInt 300) DrawBotDrawingTool_init =
     Inr (after (Tool_newPage sampleEnv (PInt 200) (PInt 300) DrawBotDrawingTool_init))
   \<and> Tool_pageCount DrawBotDrawingTool_init = 0
   \<and> Tool_pageCount (after (Tool_newPage sampleEnv (PInt 200) (PInt 300) DrawBotDrawingTool_init)) = 1
   \<and> Tool_pageCount (after (Tool_newPage sampleEnv (PInt 200) (PInt 300)
        (after (Tool_newPage sampleEnv (PInt 200) (PInt 300) DrawBotDrawingTool_init)))) = 2"
proof -
  have first: "Tool_newPage sampleEnv (PInt 200) (PInt 300) DrawBotDrawingTool_init =
     Inr (after (Tool_newPage sampleEnv (PInt 200) (PInt 300) DrawBotDrawingTool_init))"
    by (simp add: Tool_newPage_def namedSize_def lookup_key_def DrawBotDrawingTool_init_def
        after_def Let_def)
  have second: "Tool_newPage sampleEnv (PInt 200) (PInt 300)
        (after (Tool_newPage sampleEnv (PInt 200) (PInt 300) DrawBotDrawingTool_init)) =
     Inr (after (Tool_newPage sampleEnv (PInt 200) (PInt 300)
        (after (Tool_newPage sampleEnv (PInt 200) (PInt 300) DrawBotDrawingTool_init))))"
    by (simp add: Tool_newPage_def namedSize_def lookup_key_def DrawBotDrawingTool_init_def
        after_def Let_def Tool_addInstruction_def)
  have zero: "Tool_pageCount DrawBotDrawingTool_init = 0"
    by (simp add: Tool_pageCount_def DrawBotDrawingTool_init_def)
  show ?thesis
    using newPage_starts_a_group [of "[]" "[]" DrawBotDrawingTool_init sampleEnv "PInt 200" "PInt 300"]
      newPage_starts_a_group [of "[]" "[]"
        "after (Tool_newPage sampleEnv (PInt 200) (PInt 300) DrawBotDrawingTool_init)"
        sampleEnv "PInt 200" "PInt 300"]
      first second zero
    by simp
qed

text \<open>
  C10.  \<open>size(w, h)\<close> on a tool whose log is not empty raises a \<open>DrawBotError\<close>, and the
  tool it leaves behind has the new width and height stored (after the paper-size and
  screen substitutions, and a lone float standing for both).  What \<open>width()\<close> and
  \<open>height()\<close> return has changed accordingly, an argument-less \<open>newPage()\<close>
  afterwards records these dimensions, and so does a synthetic first page.
\<close>

theorem size_after_drawing_overwrites_then_raises:
  assumes single: "\<not> isSinglePage t"
    and begun: "instructionsStack t \<noteq> []"
    and named: "namedSize E w h = Inr (w1, h1)"
    and t': "t' = t\<lparr>tool_width := w1, tool_height := (if h1 = PNone \<and> isFloat w1 then w1 else h1)\<rparr>"
  shows "Tool_size E w h t =
           Inl (DrawBotError
             ''Can't use size() after drawing has begun. Try to move it to the top of your script.'',
             t')
         \<and> Tool_width t' = (if w1 = PNone then PInt 1000 else w1)
         \<and> Tool_height t' = (if (if h1 = PNone \<and> isFloat w1 then w1 else h1) = PNone
                              then PInt 1000
                              else (if h1 = PNone \<and> isFloat w1 then w1 else h1))
         \<and> instructionsStack (after (Tool_newPage E PNone PNone t')) =
             instructionsStack t @ [[(''newPage'', [A (Tool_width t'), A (Tool_height t')], [])]]
         \<and> firstPage t' = (''newPage'', [A (Tool_width t'), A (Tool_height t')], [])"
proof -
  have raises: "Tool_size E w h t =
           Inl (DrawBotError
             ''Can't use size() after drawing has begun. Try to move it to the top of your script.'',
             t')"
    using single begun named t' by (simp add: Tool_size_def Let_def)
  have dims: "Tool_width t' = (if w1 = PNone then PInt 1000 else w1)
         \<and> Tool_height t' = (if (if h1 = PNone \<and> isFloat w1 then w1 else h1) = PNone
                              then PInt 1000
                              else (if h1 = PNone \<and> isFloat w1 then w1 else h1))"
    using t' by (simp add: Tool_width_def Tool_height_def)
  have later: "instructionsStack (after (Tool_newPage E PNone PNone t')) =
             instructionsStack t @ [[(''newPage'', [A (Tool_width t'), A (Tool_height t')], [])]]"
    using single begun t'
    by (simp add: Tool_newPage_def namedSize_def lookup_key_def Let_def after_def
        Tool_addInstruction_def on_last_def Tool_width_def Tool_height_def)
  show ?thesis
    using raises dims later by (simp add: firstPage_def)
qed

theorem size_after_drawing_overwrites_then_raises_witness:
  "\<not> isSinglePage (Tool_fontSize (PInt 12) DrawBotDrawingTool_init)
   \<and> instructionsStack (Tool_fontSize (PInt 12) DrawBotDrawingTool_init) \<noteq> []
   \<and> namedSize sampleEnv (PInt 200) (PInt 300) = Inr (PInt 200, PInt 300)
   \<and> Tool_width (Tool_fontSize (PInt 12) DrawBotDrawingTool_init) = PInt 1000
   \<and> raised (Tool_size sampleEnv (PInt 200) (PInt 300)
        (Tool_fontSize (PInt 12) DrawBotDrawingTool_init)) =
       Some (DrawBotError
         ''Can't use size() after drawing has begun. Try to move it to the top of your script.'')
   \<and> Tool_width (after (Tool_size sampleEnv (PInt 200) (PInt 300)
        (Tool_fontSize (PInt 12) DrawBotDrawingTool_init))) = PInt 200
   \<and> Tool_height (after (Tool_size sampleEnv (PInt 200) (PInt 300)
        (Tool_fontSize (PInt 12) DrawBotDrawingTool_init))) = PInt 300"
proof -
  have single: "\<not> isSinglePage (Tool_fontSize (PInt 12) DrawBotDrawingTool_init)"
    by (simp add: Tool_fontSize_def Tool_addInstruction_def DrawBotDrawingTool_init_def Let_def)
  have begun: "instructionsStack (Tool_fontSize (PInt 12) DrawBotDrawingTool_init) \<noteq> []"
    by (simp add: Tool_fontSize_def Tool_addInstruction_def DrawBotDrawingTool_init_def Let_def
        on_last_def)
  have named: "namedSize sampleEnv (PInt 200) (PInt 300) = Inr (PInt 200, PInt 300)"
    by (simp add: namedSize_def lookup_key_def)
  have before: "Tool_width (Tool_fontSize (PInt 12) DrawBotDrawingTool_init) = PInt 1000"
    by (simp add: Tool_width_def Tool_fontSize_def Tool_addInstruction_def
        DrawBotDrawingTool_init_def Let_def)
  show ?thesis
    using size_after_drawing_overwrites_then_raises [OF single begun named refl] single begun
      named before
    by (simp add: raised_def after_def isFloat_def)
qed

section \<open>Scripts and the log\<close>

lemmas tool_defs = Tool_size_def Tool_newPage_def Tool_save_def Tool_restore_def Tool_rect_def
  Tool_oval_def Tool_newPath_def Tool_moveTo_def Tool_lineTo_def Tool_curveTo_def Tool_closePath_def
  Tool_drawPath_def Tool_clipPath_def Tool_fill_def Tool_stroke_def Tool_cmykFill_def
  Tool_cmykStroke_def Tool_linearGradient_def Tool_radialGradient_def Tool_strokeWidth_def
  Tool_miterLimit_def Tool_lineJoin_def Tool_lineCap_def Tool_lineDash_def Tool_blendMode_def
  Tool_opacity_def Tool_shadow_def Tool_transform_def Tool_translate_def Tool_frameDuration_def
  Tool_fontSize_def Tool_lineHeight_def record_drawing_def

lemma step_returns_shape:
  assumes "step E c t = Inr t'"
  shows "\<exists>name args u. t' = Tool_addInstruction name args [] u
           \<and> instructionsStack u = instructionsStack t
           \<and> hasPage u = (hasPage t \<or> makesPage c)
           \<and> requiresNewFirstPage u = (requiresNewFirstPage t \<or> needsPage c)
           \<and> (name = ''newPage'') = makesPage c
           \<and> isSinglePage u = isSinglePage t
           \<and> (makesPage c \<or> (tool_width u = tool_width t \<and> tool_height u = tool_height t))"
proof (cases c)
  case (Size w h)
  then show ?thesis using assms
    apply (simp add: tool_defs Let_def split: if_splits sum.splits prod.splits)
    apply (auto intro!: exI)
    done
next
  case (NewPage w h)
  then show ?thesis using assms
    apply (simp add: tool_defs Let_def split: if_splits sum.splits prod.splits)
    apply (auto intro!: exI)
    done
qed (use assms in \<open>auto simp add: tool_defs Let_def split: if_splits sum.splits prod.splits intro!: exI\<close>)

lemma step_raises_shape:
  assumes "step E c t = Inl (e, t')"
  shows "instructionsStack t' = instructionsStack t \<and> hasPage t' = hasPage t
         \<and> requiresNewFirstPage t' = requiresNewFirstPage t \<and> isSinglePage t' = isSinglePage t"
  using assms
  by (cases c) (auto simp add: tool_defs Let_def split: if_splits sum.splits prod.splits)






lemma heads_ok_addInstruction:
  assumes "heads_ok (instructionsStack u)"
  shows "heads_ok (instructionsStack (Tool_addInstruction name args kw u))"
proof (cases "instructionsStack u" rule: rev_cases)
  case Nil
  then show ?thesis
    by (simp add: Tool_addInstruction_def Let_def on_last_def heads_ok_def firstIsNewPage_def)
next
  case (snoc st g)
  then show ?thesis using assms
    by (cases g) (auto simp add: Tool_addInstruction_def Let_def on_last_def heads_ok_def
        firstIsNewPage_def butlast_append)
qed

lemma heads_ok_step:
  assumes "heads_ok (instructionsStack t)"
  shows "heads_ok (instructionsStack (after (step E c t)))"
proof (cases "step E c t")
  case (Inl x)
  then show ?thesis using assms step_raises_shape [of E c t "fst x" "snd x"]
    by (cases x) (simp add: after_def)
next
  case (Inr t')
  then show ?thesis using assms step_returns_shape [of E c t t'] heads_ok_addInstruction
    by (auto simp add: after_def)
qed

lemma runAll_snoc: "runAll E (cs @ [c]) t = after (step E c (runAll E cs t))"
  by (simp add: runAll_def)

lemma heads_ok_runAll: "heads_ok (instructionsStack (runAll E cs DrawBotDrawingTool_init))"
proof (induction cs rule: rev_induct)
  case Nil
  then show ?case by (simp add: runAll_def DrawBotDrawingTool_init_def heads_ok_def)
next
  case (snoc c cs)
  then show ?case by (simp add: runAll_snoc heads_ok_step)
qed

lemma pages_of_heads_ok:
  "heads_ok st \<Longrightarrow> filter (\<lambda>g. list_ex (\<lambda>i. fst i = ''newPage'') g) st = filter firstIsNewPage st"
  by (induction st) (auto simp add: heads_ok_def)

text \<open>
  C8.  On every tool reached from a new one by public calls (whether they return or raise)
  \<open>pages\<close> is the list of the groups whose first instruction is a \<open>newPage\<close>, in
  recorded order, while \<open>pageCount\<close> counts every group, also those \<open>pages\<close> leaves out.
\<close>

theorem pages_are_the_groups_starting_with_newPage: "Tool_pages (runAll E cs DrawBotDrawingTool_init) =
     filter firstIsNewPage (instructionsStack (runAll E cs DrawBotDrawingTool_init))
   \<and> Tool_pageCount (runAll E cs DrawBotDrawingTool_init) =
     length (instructionsStack (runAll E cs DrawBotDrawingTool_init))"
  using heads_ok_runAll [of E cs] pages_of_heads_ok
  by (simp add: Tool_pages_def Tool_pageCount_def)


theorem pages_are_the_groups_starting_with_newPage_witness:
  "instructionsStack
     (runAll sampleEnv [FontSize (PInt 12), NewPage (PInt 200) (PInt 300),
                        Rect (PInt 0) (PInt 0) (PInt 10) (PInt 10)] DrawBotDrawingTool_init) =
     [[(''fontSize'', [A (PInt 12)], [])],
      [(''newPage'', [A (PInt 200), A (PInt 300)], []),
       (''rect'', [A (PInt 0), A (PInt 0), A (PInt 10), A (PInt 10)], [])]]
   \<and> Tool_pages
     (runAll sampleEnv [FontSize (PInt 12), NewPage (PInt 200) (PInt 300),
                        Rect (PInt 0) (PInt 0) (PInt 10) (PInt 10)] DrawBotDrawingTool_init) =
     [[(''newPage'', [A (PInt 200), A (PInt 300)], []),
       (''rect'', [A (PInt 0), A (PInt 0), A (PInt 10), A (PInt 10)], [])]]
   \<and> Tool_pageCount
     (runAll sampleEnv [FontSize (PInt 12), NewPage (PInt 200) (PInt 300),
                        Rect (PInt 0) (PInt 0) (PInt 10) (PInt 10)] DrawBotDrawingTool_init) = 2"
proof -
  have log: "instructionsStack
     (runAll sampleEnv [FontSize (PInt 12), NewPage (PInt 200) (PInt 300),
                        Rect (PInt 0) (PInt 0) (PInt 10) (PInt 10)] DrawBotDrawingTool_init) =
     [[(''fontSize'', [A (PInt 12)], [])],
      [(''newPage'', [A (PInt 200), A (PInt 300)], []),
       (''rect'', [A (PInt 0), A (PInt 0), A (PInt 10), A (PInt 10)], [])]]"
    by (simp add: runAll_def after_def tool_defs Tool_addInstruction_def on_last_def Let_def
        DrawBotDrawingTool_init_def namedSize_def lookup_key_def)
  show ?thesis
    using pages_are_the_groups_starting_with_newPage [of sampleEnv
        "[FontSize (PInt 12), NewPage (PInt 200) (PInt 300),
          Rect (PInt 0) (PInt 0) (PInt 10) (PInt 10)]"]
    by (simp add: log firstIsNewPage_def)
qed































section \<open>Save and restore\<close>

text \<open>
  What a copy of a graphics state keeps.  Whenever \<open>GraphicsState.copy\<close> returns, the
  copy agrees with the original on the colour space, blend mode, opacity, both RGB colours,
  the stroke attributes and the hyphenation flag; of a CMYK colour it keeps the native
  colour but not the tuple \<open>_cmyka\<close>.
\<close>

lemma bindE_Inr: "bindE r f = Inr y \<Longrightarrow> \<exists>x. r = Inr x \<and> f x = Inr y"
  by (cases r) (simp_all add: bindE_def)

lemma copy_opt_Color: "copy_opt Color_copy x = Inr y \<Longrightarrow> y = x"
  by (cases x) (auto simp add: copy_opt_def bindE_def Color_copy_def split: option.splits sum.splits)

lemma copy_opt_CMYKColor:
  "copy_opt CMYKColor_copy x = Inr y \<Longrightarrow> y = map_option (\<lambda>k. k\<lparr>cmyka := None\<rparr>) x"
  by (cases x)
     (auto simp add: copy_opt_def bindE_def CMYKColor_copy_def split: option.splits sum.splits)

lemma GraphicsState_copy_fields:
  assumes "GraphicsState_copy E cs s = Inr s'"
  shows "colorSpace s' = colorSpace s \<and> blendMode s' = blendMode s \<and> opacity s' = opacity s
       \<and> fillColor s' = fillColor s \<and> strokeColor s' = strokeColor s
       \<and> cmykFillColor s' = map_option (\<lambda>k. k\<lparr>cmyka := None\<rparr>) (cmykFillColor s)
       \<and> cmykStrokeColor s' = map_option (\<lambda>k. k\<lparr>cmyka := None\<rparr>) (cmykStrokeColor s)
       \<and> strokeWidth s' = strokeWidth s \<and> lineDashOffset s' = lineDashOffset s
       \<and> lineCap s' = lineCap s \<and> lineJoin s' = lineJoin s \<and> miterLimit s' = miterLimit s
       \<and> hyphenation s' = hyphenation s"
proof -
  from assms obtain fc sc cf csk sh gr pa tx ld where
    fc: "copy_opt Color_copy (fillColor s) = Inr fc"
    and sc: "copy_opt Color_copy (strokeColor s) = Inr sc"
    and cf: "copy_opt CMYKColor_copy (cmykFillColor s) = Inr cf"
    and csk: "copy_opt CMYKColor_copy (cmykStrokeColor s) = Inr csk"
    and s': "s' = ((GraphicsState_init cs)
                   \<lparr>colorSpace := colorSpace s, blendMode := blendMode s, opacity := opacity s\<rparr>)
               \<lparr>fillColor := fc, strokeColor := sc, cmykFillColor := cf,
                     cmykStrokeColor := csk, shadow := sh, gradient := gr, path := pa,
                     textState := tx, hyphenation := hyphenation s,
                     strokeWidth := strokeWidth s, lineCap := lineCap s, lineDash := ld,
                     lineDashOffset := lineDashOffset s, lineJoin := lineJoin s,
                     miterLimit := miterLimit s\<rparr>"
    unfolding GraphicsState_copy_def Let_def
    by (auto dest!: bindE_Inr)
  show ?thesis
    using copy_opt_Color [OF fc] copy_opt_Color [OF sc] copy_opt_CMYKColor [OF cf]
      copy_opt_CMYKColor [OF csk]
    by (simp add: s')
qed

lemma save_then_restore:
  assumes "BaseContext_save E c = Inr c1"
  shows "\<exists>s'. GraphicsState_copy E (Color_colorSpace c) (ctx_state c) = Inr s'
           \<and> BaseContext_restore c1 =
               Inr (c\<lparr>ctx_state := s', Color_colorSpace := colorSpace s'\<rparr>)"
  using assms
  by (auto simp add: BaseContext_save_def BaseContext_restore_def split: sum.splits)

text \<open>
  A \<open>save\<close>, any sequence of calls in which saves and restores are matched, and the
  \<open>restore\<close>: when all of it returns, the current state is the copy that the \<open>save\<close>
  made of the state it found, and the stack of saved states is as before.  Nothing done
  in between shows.
\<close>

lemmas bc_defs = BaseContext_newPage_def BaseContext_rect_def BaseContext_oval_def
  BaseContext_newPath_def BaseContext_moveTo_def BaseContext_lineTo_def BaseContext_curveTo_def
  BaseContext_closePath_def BaseContext_pen_def BaseContext_drawPath_def BaseContext_clipPath_def
  set_path_def BaseContext_fill_def BaseContext_stroke_def BaseContext_cmykFill_def
  BaseContext_cmykStroke_def BaseContext_shadow_def BaseContext_linearGradient_def
  BaseContext_radialGradient_def BaseContext_strokeWidth_def BaseContext_miterLimit_def
  BaseContext_lineJoin_def BaseContext_lineCap_def BaseContext_lineDash_def
  BaseContext_blendMode_def BaseContext_opacity_def BaseContext_transform_def
  BaseContext_fontSize_def BaseContext_lineHeight_def upd_text_def

lemma call_keeps_stack:
  assumes "fst i \<noteq> ''save''" "fst i \<noteq> ''restore''" "BaseContext_call E i c = Inr c'"
  shows "ctx_stack c' = ctx_stack c"
  using assms
  unfolding BaseContext_call_def Let_def
  by (auto simp add: bc_defs Let_def split: if_splits option.splits sum.splits list.splits prod.splits)


lemma save_pushes:
  "BaseContext_save E c = Inr c1 \<Longrightarrow>
     \<exists>s'. GraphicsState_copy E (Color_colorSpace c) (ctx_state c) = Inr s'
          \<and> c1 = c\<lparr>ctx_stack := ctx_stack c @ [s']\<rparr>"
  by (auto simp add: BaseContext_save_def split: sum.splits)

lemma restore_pops:
  "ctx_stack c2 = st @ [s'] \<Longrightarrow>
     BaseContext_restore c2 = Inr (c2\<lparr>ctx_state := s', ctx_stack := st, Color_colorSpace := colorSpace s'\<rparr>)"
  by (simp add: BaseContext_restore_def)

lemma blocks_keep_stack:
  "plainBlock b \<Longrightarrow> exec E b c = Inr c' \<Longrightarrow> ctx_stack c' = ctx_stack c"
  and blocks_keep_stack_list:
  "plainBlocks bs \<Longrightarrow> execs E bs c = Inr c' \<Longrightarrow> ctx_stack c' = ctx_stack c"
proof (induction E b c and E bs c arbitrary: c' and c' rule: exec_execs.induct)
  case (1 E i c)
  then show ?case using call_keeps_stack [of i E c] by simp
next
  case (2 E body c)
  from 2(3) obtain c1 c2 where c1: "BaseContext_save E c = Inr c1"
    and c2: "execs E body c1 = Inr c2" and r: "BaseContext_restore c2 = Inr c'"
    by (auto split: sum.splits)
  from save_pushes [OF c1] obtain s' where
    s': "c1 = c\<lparr>ctx_stack := ctx_stack c @ [s']\<rparr>" by blast
  have "ctx_stack c2 = ctx_stack c1" using 2(1) [OF c1 _ c2] 2(2) by simp
  then have "ctx_stack c2 = ctx_stack c @ [s']" using s' by simp
  from restore_pops [OF this] r show ?case by auto
next
  case (3 E c)
  then show ?case by simp
next
  case (4 E b bs c)
  from 4(4) obtain c1 where c1: "exec E b c = Inr c1" and rest: "execs E bs c1 = Inr c'"
    by (auto split: sum.splits)
  have "ctx_stack c1 = ctx_stack c" using 4(1) [OF _ c1] 4(3) by simp
  moreover have "ctx_stack c' = ctx_stack c1" using 4(2) [OF c1 _ rest] 4(3) by simp
  ultimately show ?case by simp
qed

lemma saved_block_restores_the_copy:
  assumes "plainBlocks body" and "exec E (Saved body) c = Inr c'"
  shows "\<exists>s'. GraphicsState_copy E (Color_colorSpace c) (ctx_state c) = Inr s'
           \<and> ctx_state c' = s' \<and> ctx_stack c' = ctx_stack c"
proof -
  from assms(2) obtain c1 c2 where c1: "BaseContext_save E c = Inr c1"
    and c2: "execs E body c1 = Inr c2" and r: "BaseContext_restore c2 = Inr c'"
    by (auto split: sum.splits)
  from save_pushes [OF c1] obtain s' where
    cp: "GraphicsState_copy E (Color_colorSpace c) (ctx_state c) = Inr s'"
    and s': "c1 = c\<lparr>ctx_stack := ctx_stack c @ [s']\<rparr>" by blast
  have "ctx_stack c2 = ctx_stack c1" using blocks_keep_stack_list [OF assms(1) c2] by simp
  then have "ctx_stack c2 = ctx_stack c @ [s']" using s' by simp
  from restore_pops [OF this] r have "ctx_state c' = s' \<and> ctx_stack c' = ctx_stack c" by auto
  then show ?thesis using cp by blast
qed


lemmas fs_defs = FormattedString_copy_def FormattedString_attributes_def
  FormattedString_defaults_def FormattedString_setAttribute_def FormattedString_call_def
  one_arg_def arg_or_def FormattedString_font_def FormattedString_fallbackFont_def
  FormattedString_fill_def FormattedString_cmykFill_def FormattedString_stroke_def
  FormattedString_cmykStroke_def FormattedString_underline_def FormattedString_strikethrough_def
  FormattedString_writingDirection_def FormattedString_openTypeFeatures_def
  FormattedString_fontVariations_def FormattedString_tabs_def
  FormattedString_setColorAttributes_def wrap_len_def stringValidator_def
  getNSFontFromNameOrPath_def popped_truthy_def pop_key_def Let_def

lemma blackCMYK_text:
  "FormattedString_copy sampleEnv
     (FormattedString_cmykFill (PInt 0) (PInt 0) (PInt 0) (PInt 1) (PInt 1) FormattedString_defaults) =
   Inr (FormattedString_cmykFill (PInt 0) (PInt 0) (PInt 0) (PInt 1) (PInt 1) FormattedString_defaults)"
  by (simp add: sampleEnv_def fs_defs)

lemma blackCMYK_state:
  "blackCMYK =
     (BaseContext_init GenericRGB)\<lparr>ctx_state := (GraphicsState_init GenericRGB)
        \<lparr>textState := FormattedString_cmykFill (PInt 0) (PInt 0) (PInt 0) (PInt 1) (PInt 1)
                        FormattedString_defaults,
         cmykFillColor := Some \<lparr>cmyk_ns = Some (UsingColorSpace
                                   (DeviceCMYKA (PInt 0) (PInt 0) (PInt 0) (PInt 1) (PInt 1))
                                   GenericCMYK),
                                 cmyka = Some (PInt 0, PInt 0, PInt 0, PInt 1, PInt 1)\<rparr>,
         fillColor := Some \<lparr>color_ns = Some (UsingColorSpace
                               (CalibratedRGBA (PFloat 0) (PFloat 0) (PFloat 0) (PInt 1))
                               GenericRGB)\<rparr>\<rparr>\<rparr>"
  by (simp add: blackCMYK_def BaseContext_cmykFill_def upd_text_def BaseContext_init_def
      GraphicsState_init_def sampleEnv_def CMYKColor_init_def Color_init_def sample_cmyk2rgb_def
      Let_def)

lemma blackCMYK_save: "\<exists>c1. BaseContext_save sampleEnv blackCMYK = Inr c1"
  unfolding blackCMYK_state
  by (simp add: BaseContext_save_def GraphicsState_copy_def bindE_def copy_opt_def blackCMYK_text
      BaseContext_init_def GraphicsState_init_def Color_copy_def CMYKColor_copy_def Color_init_def)

text \<open>
  C1 at a failing input.  On a new context, after \<open>cmykFill(0, 0, 0, 1)\<close>, a
  \<open>save()\<close> and the matching \<open>restore()\<close> both return, and the CMYK fill of the
  current state, which carried the tuple \<open>(0, 0, 0, 1, 1)\<close> before the \<open>save()\<close>, has
  no such tuple after the \<open>restore()\<close>: the state is not the one that was saved.
\<close>

theorem save_restore_loses_cmyka:
  "raised (BaseContext_save sampleEnv blackCMYK) = None
   \<and> raised (BaseContext_restore (after (BaseContext_save sampleEnv blackCMYK))) = None
   \<and> map_option cmyka (cmykFillColor (ctx_state blackCMYK)) =
       Some (Some (PInt 0, PInt 0, PInt 0, PInt 1, PInt 1))
   \<and> map_option cmyka (cmykFillColor (ctx_state
        (after (BaseContext_restore (after (BaseContext_save sampleEnv blackCMYK)))))) = Some None
   \<and> ctx_state (after (BaseContext_restore (after (BaseContext_save sampleEnv blackCMYK))))
       \<noteq> ctx_state blackCMYK"
proof -
  from blackCMYK_save obtain c1 where c1: "BaseContext_save sampleEnv blackCMYK = Inr c1"
    by blast
  from save_then_restore [OF c1] obtain s' where
    s': "GraphicsState_copy sampleEnv (Color_colorSpace blackCMYK) (ctx_state blackCMYK) = Inr s'"
    and r: "BaseContext_restore c1 = Inr (blackCMYK\<lparr>ctx_state := s', Color_colorSpace := colorSpace s'\<rparr>)"
    by blast
  have before: "map_option cmyka (cmykFillColor (ctx_state blackCMYK)) =
       Some (Some (PInt 0, PInt 0, PInt 0, PInt 1, PInt 1))"
    by (simp add: blackCMYK_state)
  have "cmykFillColor s' = map_option (\<lambda>k. k\<lparr>cmyka := None\<rparr>) (cmykFillColor (ctx_state blackCMYK))"
    using GraphicsState_copy_fields [OF s'] by simp
  then have after': "map_option cmyka (cmykFillColor s') = Some None"
    by (simp add: blackCMYK_state)
  have differ: "s' \<noteq> ctx_state blackCMYK"
    using before after' by auto
  show ?thesis
    using c1 r before after' differ by (simp add: raised_def after_def)
qed

end
